theory Spec2Isabelle
  imports Main
begin

section \<open>Values of the data files\<close>

text \<open>
  The three source files are object literals and nothing else: a tag dictionary
  \<^verbatim>\<open>TAG_DEFINITIONS\<close> and a library object \<^verbatim>\<open>GRPG_LIBRARY\<close> whose
  category buckets map record ids to records. A value is a string, a number, an array or an
  object. Every number of the data is a small integer. An object literal is the list of its
  properties in source order; no object literal of the data repeats a key
  (\<open>distinct_keys\<close> below), so the first property of a name is the only one.

  A string is the list of the bytes of its UTF-8 encoding, which is one-to-one on the
  strings of the data: the identifiers, tags and property names are ASCII, and the prose
  holds three characters beyond ASCII, named below, and line feeds.
\<close>

datatype jsval =
    JStr string
  | JNum int
  | JArr "jsval list"
  | JObj "(string \<times> jsval) list"

abbreviation rsquo :: string where
  "rsquo \<equiv> [CHR 0xE2, CHR 0x80, CHR 0x99]"

abbreviation ldquo :: string where
  "ldquo \<equiv> [CHR 0xE2, CHR 0x80, CHR 0x9C]"

abbreviation rdquo :: string where
  "rdquo \<equiv> [CHR 0xE2, CHR 0x80, CHR 0x9D]"

text \<open>
  Property access \<^verbatim>\<open>o[k]\<close> on an object literal: \<open>None\<close> is JavaScript's
  \<^verbatim>\<open>undefined\<close>. The data is read through properties of objects only.
\<close>

fun getp :: "jsval \<Rightarrow> string \<Rightarrow> jsval option" where
  "getp (JObj kvs) k = map_of kvs k"
| "getp _ k = None"

text \<open>A chain of property accesses \<^verbatim>\<open>o?.k1?.k2\<close>.\<close>

fun getpath :: "jsval \<Rightarrow> string list \<Rightarrow> jsval option" where
  "getpath v [] = Some v"
| "getpath v (k # ks) = (case getp v k of None \<Rightarrow> None | Some w \<Rightarrow> getpath w ks)"

declare getpath.simps [simp del]

text \<open>\<^verbatim>\<open>Object.entries(o)\<close> of an object literal.\<close>

fun entries :: "jsval \<Rightarrow> (string \<times> jsval) list" where
  "entries (JObj kvs) = kvs"
| "entries _ = []"

text \<open>The string elements of an array; a property that is absent holds none.\<close>

fun strings :: "jsval list \<Rightarrow> string list" where
  "strings [] = []"
| "strings (JStr s # xs) = s # strings xs"
| "strings (_ # xs) = strings xs"

fun str_elems :: "jsval option \<Rightarrow> string list" where
  "str_elems (Some (JArr xs)) = strings xs"
| "str_elems _ = []"

text \<open>No object literal inside a value repeats a key.\<close>

primrec distinct_keys :: "jsval \<Rightarrow> bool" where
  "distinct_keys (JStr s) = True"
| "distinct_keys (JNum n) = True"
| "distinct_keys (JArr xs) = list_all id (map distinct_keys xs)"
| "distinct_keys (JObj kvs) =
     (distinct (map fst kvs) \<and> list_all snd (map (map_prod id distinct_keys) kvs))"

section \<open>The data\<close>

text \<open>
  The three files define the same two names, so a constant carries the name of its file:
  \<open>library\<close> for \<^verbatim>\<open>src/library.js\<close>, \<open>v001\<close> for
  \<^verbatim>\<open>src/GRPGLibrary0.0.1.js\<close> and \<open>part000\<close> for
  \<^verbatim>\<open>src/unnamed/part_000\<close>. Each record literal of a bucket is a constant named
  after its key, and the library object holds these constants under their keys, in source
  order. \<^verbatim>\<open>tags: TAG_DEFINITIONS\<close> refers to the dictionary of the same file.
\<close>

subsection \<open>The data of \<^verbatim>\<open>src/library.js\<close>\<close>

text \<open>\<^verbatim>\<open>TAG_DEFINITIONS\<close>, line 44 of \<^verbatim>\<open>src/library.js\<close>.\<close>

definition library_TAG_DEFINITIONS :: jsval where
  "library_TAG_DEFINITIONS = JObj [
    (''type:race'', JObj [
      (''category'', JStr ''type''),
      (''description'', JStr ''Marks a record as a Race.'')]),
    (''type:class'', JObj [
      (''category'', JStr ''type''),
      (''description'', JStr ''Marks a record as a Class.'')]),
    (''type:circle'', JObj [
      (''category'', JStr ''type''),
      (''description'', JStr ''Marks a record as a Circle.'')]),
    (''type:origin'', JObj [
      (''category'', JStr ''type''),
      (''description'', JStr ''Marks a record as an Origin.'')]),
    (''type:trait'', JObj [
      (''category'', JStr ''type''),
      (''description'', JStr ''Marks a record as an Attribute or an Adventuring Trait (passives).'')]),
    (''type:ability'', JObj [
      (''category'', JStr ''type''),
      (''description'', JStr ''Marks a record as a Combat or Adventuring Ability.'')]),
    (''type:item'', JObj [
      (''category'', JStr ''type''),
      (''description'', JStr ''Marks a record as an item (weapon, armor, gear, etc.).'')]),
    (''type:profession'', JObj [
      (''category'', JStr ''type''),
      (''description'', JStr ''Marks a record as a Profession / non-combat role.'')]),
    (''type:condition'', JObj [
      (''category'', JStr ''type''),
      (''description'', JStr ''Marks a record as a Status Condition.'')])]"

definition library_race_tettari :: jsval where
  "library_race_tettari = JObj [
    (''id'', JStr ''race-tettari''),
    (''type'', JStr ''race''),
    (''name'', JStr ''Tettari''),
    (''summary'', JStr ''Short, quick, and warm-hearted humanoids known for hospitality and nimble reflexes.''),
    (''description'', JStr ''Tettari are a shorter race of quick and nimble humanoids, typically standing between 4 and 5 feet tall. Their complexion ranges from light blue, to dark blue, to light purple. They have large, flat noses often tinged with pink and usually wear their hair long and thick. Many male Tettari have wild hair that runs directly into their beards, but their facial hair notably does not include mustaches, further emphasizing their noses. Tettari tend to be warm, joyous, and passionate about people. They are known for their hospitality and welcoming communities, often living in communal homes and shared spaces.''),
    (''tags'', JArr [JStr ''type:race'']),
    (''mechanics'', JObj [
      (''attributeMods'', JObj [
        (''agility'', JNum 2),
        (''willpower'', JNum 2),
        (''dodgeChance'', JNum 5)]),
      (''baseSpeedFeet'', JNum 40),
      (''innateTraits'', JArr []),
      (''innateAbilities'', JArr [JStr ''ability-tettari-blink'', JStr ''ability-tettari-stew''])])]"

definition library_race_bartusa :: jsval where
  "library_race_bartusa = JObj [
    (''id'', JStr ''race-bartusa''),
    (''type'', JStr ''race''),
    (''name'', JStr ''Bartusa''),
    (''summary'', JStr ''Large, powerful warriors with deep honor traditions and reinforced cranial ridges.''),
    (''description'', JStr ''Bartusa are large and powerful. They stand between 6 and 7 feet tall. Bartusa have broad shoulders that often make their heads look hunched over. Their skin ranges from deep purple to a dark brown color. Bartusa have reinforced cranial ridges on their foreheads, which often can extend into horn-like structures. Many people see Bartusa as a warrior race, however they see themselves as much more. The Bartusa have a strict sense of honor. Their society honors their warriors in highest regard, but still value all other aspects of their society, viewing them as necessary supporting functions to the warrior class. Bartusa and Tettari have become close allies as they compliment each other well in a society, Tettari caring for the town and enabling the honored warrior class of Bartusa to protect the community.''),
    (''tags'', JArr [JStr ''type:race'']),
    (''mechanics'', JObj [
      (''attributeMods'', JObj [
        (''strength'', JNum 3),
        (''fortitude'', JNum 1),
        (''parryChance'', JNum 5)]),
      (''baseSpeedFeet'', JNum 30),
      (''innateTraits'', JArr []),
      (''innateAbilities'', JArr [JStr ''ability-unstoppable-charge'', JStr ''ability-word-of-honor''])])]"

definition library_race_astrellidari :: jsval where
  "library_race_astrellidari = JObj [
    (''id'', JStr ''race-astrellidari''),
    (''type'', JStr ''race''),
    (''name'', JStr ''Astrellidari''),
    (''summary'', JStr ''Cosmic-featured humanoids with deep arcane intuition and stellar origins.''),
    (''description'', JStr (''Astrellidari are a mystical race of humanoids, said to originate from amongst the cosmos. Standing between 5 and 6 feet tall, these sleek fine featured individuals have a dark blue skin, with small beads of light across their skin both of which are reminiscent of the night'' @ rsquo @ ''s sky. Their hair is a shiny platinum white, and their eyes usually burn with a single color, often yellow, white, or purple. Astrellidari are an intellectual race of people, who value reason and logic, and tend to show interest in matters of Arcane as they seem to have a connection to the Arcane elements. Astrellidari often see themselves as superior to other creatures, seeing themselves as descendants of the great cosmos itself.'')),
    (''tags'', JArr [JStr ''type:race'']),
    (''mechanics'', JObj [
      (''attributeMods'', JObj [
        (''willpower'', JNum 3),
        (''agility'', JNum 1),
        (''arcaneResistance'', JNum 15)]),
      (''baseSpeedFeet'', JNum 30),
      (''innateTraits'', JArr []),
      (''innateAbilities'', JArr [JStr ''ability-touch-of-the-cosmos'', JStr ''ability-arcane-intuition''])])]"

definition library_race_wulkaran :: jsval where
  "library_race_wulkaran = JObj [
    (''id'', JStr ''race-wulkaran''),
    (''type'', JStr ''race''),
    (''name'', JStr ''Wulkaran''),
    (''summary'', JStr ''Large, fur-covered mountain dwellers known for battle rage and unusual rituals.''),
    (''description'', JStr ''The Wulkaran are large hairy humanoids. They stand between 6 and 7 feet tall, and are covered head to toe in long thick hair. While Wulkaran are strong and can be fierce warriors and are known for their rage in battle, however they often have a contemplative side to them. They tend to be superstitious and have unusual traditions or rituals in their culture that outsiders don't fully understand. Their thick fur has enabled them to comfortably live in frigid and mountainous regions. Some Wulkaran are nomadic and travel in tribes, while others will build isolated strongholds.''),
    (''tags'', JArr [JStr ''type:race'']),
    (''mechanics'', JObj [
      (''attributeMods'', JObj [
        (''strength'', JNum 2),
        (''fortitude'', JNum 2),
        (''coldResistance'', JNum 15)]),
      (''baseSpeedFeet'', JNum 30),
      (''innateTraits'', JArr []),
      (''innateAbilities'', JArr [JStr ''ability-wulkaran-rage'', JStr ''ability-wulkaran-senses''])])]"

definition library_race_ignium :: jsval where
  "library_race_ignium = JObj [
    (''id'', JStr ''race-ignium''),
    (''type'', JStr ''race''),
    (''name'', JStr ''Ignium''),
    (''summary'', JStr ''Rock-skinned humanoids fueled by inner fire and passionate tempers.''),
    (''description'', JStr ''The Ignium people tend to be normal humanoid size and shape with an elemental power within them. They have patches of rocky skin across their bodies, some even have their entire body covered in this rocky flesh. Deep from within them is a fiery light that burns and begins to show through cracks in their rocky skin. These people stand between 5 and 6 feet tall, and often live near deserts or towards the warmer climates. Ignium can lead normal lives and are often a passionate race of people. Many Ignium towns are coastal, fueled by sailing and fishing, others are desert oases. Ignimum are often feared by other races, due to their association with fire, and short tempers to match.''),
    (''tags'', JArr [JStr ''type:race'']),
    (''mechanics'', JObj [
      (''attributeMods'', JObj [
        (''fortitude'', JNum 2),
        (''willpower'', JNum 2),
        (''fireResistance'', JNum 15)]),
      (''baseSpeedFeet'', JNum 30),
      (''innateTraits'', JArr []),
      (''innateAbilities'', JArr [JStr ''ability-ignis-unleashed'', JStr ''ability-fire-in-their-eye''])])]"

definition library_race_animation :: jsval where
  "library_race_animation = JObj [
    (''id'', JStr ''race-animation''),
    (''type'', JStr ''race''),
    (''name'', JStr ''Animation''),
    (''summary'', JStr ''Living constructs animated by various Circles, diverse in form and function.''),
    (''description'', JStr ''Animations are a varied people, that have a common origin, but varied traits based on their physical make-up. Through various means, constructs have been brought to life through different Circles, and collectively people refer to them as Animations.''),
    (''tags'', JArr [JStr ''type:race'']),
    (''mechanics'', JObj [
      (''attributeMods'', JObj [
        (''fortitude'', JNum 2),
        (''strength'', JNum 1),
        (''agility'', JNum 1),
        (''bodilyFortification'', JNum 15)]),
      (''baseSpeedFeet'', JNum 30),
      (''innateTraits'', JArr []),
      (''innateAbilities'', JArr [JStr ''ability-living-touch'', JStr ''ability-spark-of-life''])])]"

definition library_race_endari :: jsval where
  "library_race_endari = JObj [
    (''id'', JStr ''race-endari''),
    (''type'', JStr ''race''),
    (''name'', JStr ''Endari''),
    (''summary'', JStr ''Tall, tentacled hunters from dense forests with deadly agility.''),
    (''description'', JStr (''Endari are a slim tall race that stands around 6 feet tall. Endari notably have thin tentacles in place of their hair which enhance their senses. Endari typically live in thick forests or jungles. Endari are known for being incredibly agile hunters. Endari culture tends to be harsh and tend towards '' @ ldquo @ ''every man for themselves'' @ rdquo @ '' mentality.'')),
    (''tags'', JArr [JStr ''type:race'']),
    (''mechanics'', JObj [
      (''attributeMods'', JObj [
        (''agility'', JNum 3),
        (''willpower'', JNum 1),
        (''criticalChance'', JNum 5)]),
      (''baseSpeedFeet'', JNum 30),
      (''innateTraits'', JArr []),
      (''innateAbilities'', JArr [JStr ''ability-aggressive-surge'', JStr ''ability-endari-tentacles''])])]"

definition library_race_feyrdrin :: jsval where
  "library_race_feyrdrin = JObj [
    (''id'', JStr ''race-feyrdrin''),
    (''type'', JStr ''race''),
    (''name'', JStr ''Feyrdrin''),
    (''summary'', JStr ''Plant-skinned folk of petals and antennae who revere nature as kin.''),
    (''description'', JStr ''A people of fairytales and bedtime stories, the Feyrdrin were considered a myth until they emerged into the public eye a few decades ago. These folk can be identified easily by their plant-like skin, sprout-like antennae, and drooped ears. Where one might expect hair, Feyrdrin instead sprout brightly colored petals like those of a flower. Most Feyrdrin revere nature above all else, believing that plants are Feyrdrin that have not yet come to be.''),
    (''tags'', JArr [JStr ''type:race'']),
    (''mechanics'', JObj [
      (''attributeMods'', JObj [
        (''willpower'', JNum 2),
        (''agility'', JNum 1),
        (''fortitude'', JNum 1),
        (''natureResistance'', JNum 15)]),
      (''baseSpeedFeet'', JNum 40),
      (''innateTraits'', JArr []),
      (''innateAbilities'', JArr [JStr ''ability-barkskin'', JStr ''ability-feyrdrin-footing''])])]"

definition library_race_geodran :: jsval where
  "library_race_geodran = JObj [
    (''id'', JStr ''race-geodran''),
    (''type'', JStr ''race''),
    (''name'', JStr ''Geodran''),
    (''summary'', JStr ''Stone- and crystal-skinned giants, peaceful and deeply attuned to earth.''),
    (''description'', JStr ''Geodran are large humanoids who have either stone or crystalline skin. These fearsome people tend to be peaceful and slow to violence. Geodran tend to speak and think slowly and intentionally. Geodran are naturally attuned to the earth, and often roam highlands and mountains in herds.''),
    (''tags'', JArr [JStr ''type:race'']),
    (''mechanics'', JObj [
      (''attributeMods'', JObj [
        (''fortitude'', JNum 2),
        (''strength'', JNum 1),
        (''willpower'', JNum 1),
        (''armor'', JNum 5)]),
      (''baseSpeedFeet'', JNum 30),
      (''innateTraits'', JArr []),
      (''innateAbilities'', JArr [JStr ''ability-earth-tremor'', JStr ''ability-sensing-tremor''])])]"

definition library_race_omr :: jsval where
  "library_race_omr = JObj [
    (''id'', JStr ''race-omr''),
    (''type'', JStr ''race''),
    (''name'', JStr ''Omr''),
    (''summary'', JStr ''Blue-skinned, white-eyed cave dwellers steeped in shadow and rigid order.''),
    (''description'', JStr ''Omr are a strange race of humanoids that live deep below the surface of the earth, usually in caves or caverns. They have blue skin and completely white eyes that aid in their ability to see and live in the darkness of underground. They have adapted abilities and affinities for shadow from their time in the darkness. Omr culture tends to be cold and strict, veiled in layers of tradition and order.''),
    (''tags'', JArr [JStr ''type:race'']),
    (''mechanics'', JObj [
      (''attributeMods'', JObj [
        (''willpower'', JNum 2),
        (''agility'', JNum 1),
        (''strength'', JNum 1),
        (''shadowResistance'', JNum 15)]),
      (''baseSpeedFeet'', JNum 30),
      (''innateTraits'', JArr []),
      (''innateAbilities'', JArr [JStr ''ability-creeping-darkness'', JStr ''ability-omr-sight''])])]"

definition library_race_wildeman :: jsval where
  "library_race_wildeman = JObj [
    (''id'', JStr ''race-wildeman''),
    (''type'', JStr ''race''),
    (''name'', JStr ''Wildeman''),
    (''summary'', JStr ''Broad, animal-featured folk with wildly varied origins and forms.''),
    (''description'', JStr ''Wildeman are a broad categorized race of humanoid people with animalistic features. Being a people of such diverse origins and features, they are prevalent in all sorts of biomes or kingdoms.''),
    (''tags'', JArr [JStr ''type:race'']),
    (''mechanics'', JObj [
      (''attributeMods'', JObj [
        (''anyAttribute'', JNum 3),
        (''anotherAttribute'', JNum 1),
        (''anyOffenseOrDefense_A'', JNum 5),
        (''coldResistance_A'', JNum 15)]),
      (''baseSpeedFeet'', JNum 30),
      (''innateTraits'', JArr []),
      (''innateAbilities'', JArr [JStr ''ability-primal-roar-novice'', JStr ''ability-wild-form''])])]"

definition library_race_thulhan :: jsval where
  "library_race_thulhan = JObj [
    (''id'', JStr ''race-thulhan''),
    (''type'', JStr ''race''),
    (''name'', JStr ''Thulhan''),
    (''summary'', JStr ''Tentacled, psychic-leaning outcasts descended from a fallen starborn power.''),
    (''description'', JStr ''Thulhan are slim humanoids, with an elongated cranial ridge, and tentacles over their mouth. Rumored to have descended from a great monstrosity from the stars, Thulan are often misunderstood, distrusted, and treated as outsiders in society. Historically Thulan rivaled Astrellidari as a great race of intelligent and innovative people. This rivalry sparked many disputes between the races until finally the Thulan fell from power and were scattered. Thulhan's great Intelligence can even manifest in spurts of Psychic abilities.''),
    (''tags'', JArr [JStr ''type:race'']),
    (''mechanics'', JObj [
      (''attributeMods'', JObj [
        (''willpower'', JNum 3),
        (''fortitude'', JNum 1),
        (''wardChance'', JNum 5)]),
      (''baseSpeedFeet'', JNum 30),
      (''innateTraits'', JArr []),
      (''innateAbilities'', JArr [JStr ''ability-seed-of-paranoia'', JStr ''ability-thul-speech''])])]"

definition library_race_jackal :: jsval where
  "library_race_jackal = JObj [
    (''id'', JStr ''race-jackal''),
    (''type'', JStr ''race''),
    (''name'', JStr ''Jackal''),
    (''summary'', JStr ''Tall, lightly furred tricksters tied to sun, death, and superstition.''),
    (''description'', JStr ''Jackal are tall slender humanoids, who are lightly furred and have narrow dog-like faces. Jackal often are superstitious and will draw inspiration from the sun, moon, or other natural elements. They are also renowned tricksters, and are said to be descended from a god of death and the god of the sun.''),
    (''tags'', JArr [JStr ''type:race'']),
    (''mechanics'', JObj [
      (''attributeMods'', JObj [
        (''willpower'', JNum 2),
        (''agility'', JNum 1),
        (''strength'', JNum 1),
        (''lightResistance'', JNum 15)]),
      (''baseSpeedFeet'', JNum 30),
      (''innateTraits'', JArr []),
      (''innateAbilities'', JArr [JStr ''ability-sun-ray'', JStr ''ability-deaths-guise''])])]"

definition library_ability_tettari_blink :: jsval where
  "library_ability_tettari_blink = JObj [
    (''id'', JStr ''ability-tettari-blink''),
    (''type'', JStr ''ability''),
    (''name'', JStr ''Tettari Blink''),
    (''summary'', JStr ''Teleport yourself to a new location within 30 feet.''),
    (''description'', JStr ''Your perceived speed may be partially due to your limited ability to teleport. You can bend space to teleport to a new location within 30 feet.''),
    (''tags'', JArr [JStr ''type:ability'', JStr ''category:combat'', JStr ''source:race-tettari'']),
    (''grantedBy'', JObj [
      (''type'', JStr ''race''),
      (''id'', JStr ''race-tettari'')]),
    (''mechanics'', JObj [
      (''category'', JStr ''combat''),
      (''cost'', JStr ''No Cost''),
      (''actionType'', JStr ''1 Action''),
      (''range'', JStr ''Self''),
      (''cooldown'', JStr ''6 Turn Cooldown''),
      (''rulesText'', JStr ''Your perceived speed may be partially due to your limited ability to teleport. You can bend space to teleport to a new location within 30 feet.'')])]"

definition library_ability_tettari_stew :: jsval where
  "library_ability_tettari_stew = JObj [
    (''id'', JStr ''ability-tettari-stew''),
    (''type'', JStr ''ability''),
    (''name'', JStr ''Tettari Stew''),
    (''summary'', JStr ''Prepare a stew that grants each ally an additional Bend Fate roll after rest.''),
    (''description'', JStr ''You have a skilled palette and sense for what could make for a good hearty stew, no matter where you seem to be. If you are able to find some provisions, you can turn them into a tasty stew, calming your allies and making them feel at home. Each ally who partakes can add an additional Bend Fate roll tomorrow after completing their rest,''),
    (''tags'', JArr [JStr ''type:ability'', JStr ''category:adventuring'', JStr ''source:race-tettari'']),
    (''grantedBy'', JObj [
      (''type'', JStr ''race''),
      (''id'', JStr ''race-tettari'')]),
    (''mechanics'', JObj [
      (''category'', JStr ''adventuring''),
      (''rulesText'', JStr ''You have a skilled palette and sense for what could make for a good hearty stew, no matter where you seem to be. If you are able to find some provisions, you can turn them into a tasty stew, calming your allies and making them feel at home. Each ally who partakes can add an additional Bend Fate roll tomorrow after completing their rest,'')])]"

definition library_ability_unstoppable_charge :: jsval where
  "library_ability_unstoppable_charge = JObj [
    (''id'', JStr ''ability-unstoppable-charge''),
    (''type'', JStr ''ability''),
    (''name'', JStr ''Unstoppable Charge''),
    (''summary'', JStr ''Break free from hindering conditions and dash up to 15 feet.''),
    (''description'', JStr ''Your great force of will allows you to break from any Slow, Snare, or Restraint conditions, and dash up to 15 feet.''),
    (''tags'', JArr [JStr ''type:ability'', JStr ''category:combat'', JStr ''source:race-bartusa'']),
    (''grantedBy'', JObj [
      (''type'', JStr ''race''),
      (''id'', JStr ''race-bartusa'')]),
    (''mechanics'', JObj [
      (''category'', JStr ''combat''),
      (''cost'', JStr ''No Cost''),
      (''actionType'', JStr ''1 Minor action''),
      (''range'', JStr ''Self''),
      (''cooldown'', JStr ''6 Turn Cooldown''),
      (''rulesText'', JStr ''Your great force of will allows you to break from any Slow, Snare, or Restraint conditions, and dash up to 15 feet.'')])]"

definition library_ability_word_of_honor :: jsval where
  "library_ability_word_of_honor = JObj [
    (''id'', JStr ''ability-word-of-honor''),
    (''type'', JStr ''ability''),
    (''name'', JStr ''Word of Honor''),
    (''summary'', JStr ''Gain 1d6 when persuading after pledging your word.''),
    (''description'', JStr ''A Bartusa pledge is one acknowledged by all races, for their word is stone. Bartusa will only pledge their word if they are willing to die to back up their word. Breaking their word once pledged is seen as an ultimate disgrace to other Bartusa, resulting in their exile. Gain 1d6 to your adventuring pool when pledging your word in an attempt to persuade.''),
    (''tags'', JArr [JStr ''type:ability'', JStr ''category:adventuring'', JStr ''source:race-bartusa'']),
    (''grantedBy'', JObj [
      (''type'', JStr ''race''),
      (''id'', JStr ''race-bartusa'')]),
    (''mechanics'', JObj [
      (''category'', JStr ''adventuring''),
      (''rulesText'', JStr ''A Bartusa pledge is one acknowledged by all races, for their word is stone. Bartusa will only pledge their word if they are willing to die to back up their word. Breaking their word once pledged is seen as an ultimate disgrace to other Bartusa, resulting in their exile. Gain 1d6 to your adventuring pool when pledging your word in an attempt to persuade.'')])]"

definition library_ability_touch_of_the_cosmos :: jsval where
  "library_ability_touch_of_the_cosmos = JObj [
    (''id'', JStr ''ability-touch-of-the-cosmos''),
    (''type'', JStr ''ability''),
    (''name'', JStr ''Touch of the Cosmos''),
    (''summary'', JStr ''Put a creature to sleep until your next turn as their mind wanders the stars.''),
    (''description'', JStr ''You touch a creature, unleashing your cosmic brilliance against their mind. They fall Asleep (MF) until the start of your next turn, as their mind wanders the stars. Resisted by Mental Fortification.''),
    (''tags'', JArr [JStr ''type:ability'', JStr ''category:combat'', JStr ''source:race-astrellidari'']),
    (''grantedBy'', JObj [
      (''type'', JStr ''race''),
      (''id'', JStr ''race-astrellidari'')]),
    (''mechanics'', JObj [
      (''category'', JStr ''combat''),
      (''cost'', JStr ''No Cost''),
      (''actionType'', JStr ''1 Action''),
      (''range'', JStr ''Melee''),
      (''cooldown'', JStr ''6 Turn Cooldown''),
      (''rulesText'', JStr ''You touch a creature, unleashing your cosmic brilliance against their mind. They fall Asleep (MF) until the start of your next turn, as their mind wanders the stars. Resisted by Mental Fortification.'')])]"

definition library_ability_arcane_intuition :: jsval where
  "library_ability_arcane_intuition = JObj [
    (''id'', JStr ''ability-arcane-intuition''),
    (''type'', JStr ''ability''),
    (''name'', JStr ''Arcane Intuition''),
    (''summary'', JStr ''Gain 1d6 when identifying or interacting with Arcane-based magic.''),
    (''description'', JStr ''Astrellidari have an unusual connection to the Arcane. They often understand it far quicker than others. As such when encountering unknown arcane effects, they can often discover qualities about its origin or effects. Gain 1d6 in any attempt made to identify or interact with Arcane based magic.''),
    (''tags'', JArr [JStr ''type:ability'', JStr ''category:adventuring'', JStr ''source:race-astrellidari'']),
    (''grantedBy'', JObj [
      (''type'', JStr ''race''),
      (''id'', JStr ''race-astrellidari'')]),
    (''mechanics'', JObj [
      (''category'', JStr ''adventuring''),
      (''rulesText'', JStr ''Astrellidari have an unusual connection to the Arcane. They often understand it far quicker than others. As such when encountering unknown arcane effects, they can often discover qualities about its origin or effects. Gain 1d6 in any attempt made to identify or interact with Arcane based magic.'')])]"

definition library_ability_wulkaran_rage :: jsval where
  "library_ability_wulkaran_rage = JObj [
    (''id'', JStr ''ability-wulkaran-rage''),
    (''type'', JStr ''ability''),
    (''name'', JStr ''Wulkaran Rage''),
    (''summary'', JStr ''Enter a rage to gain an additional action used offensively.''),
    (''description'', JStr ''You burst into a rage, gaining an additional action on your turn that you must use to make an attack or use an offensive ability.''),
    (''tags'', JArr [JStr ''type:ability'', JStr ''category:combat'', JStr ''source:race-wulkaran'']),
    (''grantedBy'', JObj [
      (''type'', JStr ''race''),
      (''id'', JStr ''race-wulkaran'')]),
    (''mechanics'', JObj [
      (''category'', JStr ''combat''),
      (''cost'', JStr ''No Cost''),
      (''actionType'', JStr ''1 Minor Action''),
      (''range'', JStr ''Melee''),
      (''cooldown'', JStr ''6 Turn Cooldown''),
      (''rulesText'', JStr ''You burst into a rage, gaining an additional action on your turn that you must use to make an attack or use an offensive ability.'')])]"

definition library_ability_wulkaran_senses :: jsval where
  "library_ability_wulkaran_senses = JObj [
    (''id'', JStr ''ability-wulkaran-senses''),
    (''type'', JStr ''ability''),
    (''name'', JStr ''Wulkaran Senses''),
    (''summary'', JStr ''Gain 1d6 to Observation checks using hearing or smell.''),
    (''description'', JStr ''A Wulkaran has an enhanced sense of both hearing and smell. Observation checks that use either sense gains an additional 1d6.''),
    (''tags'', JArr [JStr ''type:ability'', JStr ''category:adventuring'', JStr ''source:race-wulkaran'']),
    (''grantedBy'', JObj [
      (''type'', JStr ''race''),
      (''id'', JStr ''race-wulkaran'')]),
    (''mechanics'', JObj [
      (''category'', JStr ''adventuring''),
      (''rulesText'', JStr ''A Wulkaran has an enhanced sense of both hearing and smell. Observation checks that use either sense gains an additional 1d6.'')])]"

definition library_ability_ignis_unleashed :: jsval where
  "library_ability_ignis_unleashed = JObj [
    (''id'', JStr ''ability-ignis-unleashed''),
    (''type'', JStr ''ability''),
    (''name'', JStr ''Ignis Unleashed''),
    (''summary'', JStr ''Deal Fire Damage equal to your Willpower pool to all enemies in a 20 ft cone.''),
    (''description'', JStr ''You unleash the fire deep within your core, dealing Willpower pool of Fire Damage to all enemies within a 20ft Cone.''),
    (''tags'', JArr [JStr ''type:ability'', JStr ''category:combat'', JStr ''source:race-ignium'']),
    (''grantedBy'', JObj [
      (''type'', JStr ''race''),
      (''id'', JStr ''race-ignium'')]),
    (''mechanics'', JObj [
      (''category'', JStr ''combat''),
      (''cost'', JStr ''No Cost''),
      (''actionType'', JStr ''1 Action''),
      (''range'', JStr ''Self''),
      (''cooldown'', JStr ''6 Turn Cooldown''),
      (''rulesText'', JStr ''You unleash the fire deep within your core, dealing Willpower pool of Fire Damage to all enemies within a 20ft Cone.'')])]"

definition library_ability_fire_in_their_eye :: jsval where
  "library_ability_fire_in_their_eye = JObj [
    (''id'', JStr ''ability-fire-in-their-eye''),
    (''type'', JStr ''ability''),
    (''name'', JStr ''Fire in Their Eye''),
    (''summary'', JStr (''Gain 1d6 to your Intuition pool when reading someone'' @ rsquo @ ''s truthfulness or motives.'')),
    (''description'', JStr ''The Ignium are exceptional at sensing the character of others. By looking deep into the eyes of an individual you have an enhanced sense to determine if they are telling the truth or hiding their motives. Gain 1d6 to your Intuition pool in relevant checks''),
    (''tags'', JArr [JStr ''type:ability'', JStr ''category:adventuring'', JStr ''source:race-ignium'']),
    (''grantedBy'', JObj [
      (''type'', JStr ''race''),
      (''id'', JStr ''race-ignium'')]),
    (''mechanics'', JObj [
      (''category'', JStr ''adventuring''),
      (''rulesText'', JStr ''The Ignium are exceptional at sensing the character of others. By looking deep into the eyes of an individual you have an enhanced sense to determine if they are telling the truth or hiding their motives. Gain 1d6 to your Intuition pool in relevant checks'')])]"

definition library_ability_internal_spark :: jsval where
  "library_ability_internal_spark = JObj [
    (''id'', JStr ''ability-internal-spark''),
    (''type'', JStr ''ability''),
    (''name'', JStr ''Living Touch''),
    (''summary'', JStr ''Restore your health by activating the life force within you.''),
    (''description'', JStr ''Activate the life force within you to restore your physical form. Regain 5+Fortitude pool of Health.''),
    (''tags'', JArr [JStr ''type:ability'', JStr ''category:combat'', JStr ''source:race-animation'']),
    (''grantedBy'', JObj [
      (''type'', JStr ''race''),
      (''id'', JStr ''race-animation'')]),
    (''mechanics'', JObj [
      (''category'', JStr ''combat''),
      (''cost'', JStr ''No Cost''),
      (''actionType'', JStr ''1 Action''),
      (''range'', JStr ''Self''),
      (''cooldown'', JStr ''6 Turn Cooldown''),
      (''rulesText'', JStr ''Activate the life force within you to restore your physical form. Regain 5+Fortitude pool of Health.'')])]"

definition library_ability_spark_of_life :: jsval where
  "library_ability_spark_of_life = JObj [
    (''id'', JStr ''ability-spark-of-life''),
    (''type'', JStr ''ability''),
    (''name'', JStr ''Spark of Life''),
    (''summary'', JStr ''Animate an object for 10 minutes and see through its eyes.''),
    (''description'', JStr ''Once per day, you can transfer a spark of your life force into an inanimate object. For the next 10 minutes the object gains a walking speed equal to your own, and you can see though it's as though it was your own eyes.''),
    (''tags'', JArr [JStr ''type:ability'', JStr ''category:adventuring'', JStr ''source:race-animation'']),
    (''grantedBy'', JObj [
      (''type'', JStr ''race''),
      (''id'', JStr ''race-animation'')]),
    (''mechanics'', JObj [
      (''category'', JStr ''adventuring''),
      (''rulesText'', JStr ''Once per day, you can transfer a spark of your life force into an inanimate object. For the next 10 minutes the object gains a walking speed equal to your own, and you can see though it's as though it was your own eyes.'')])]"

definition library_ability_aggressive_surge :: jsval where
  "library_ability_aggressive_surge = JObj [
    (''id'', JStr ''ability-aggressive-surge''),
    (''type'', JStr ''ability''),
    (''name'', JStr ''Aggressive Surge''),
    (''summary'', JStr ''Reroll your next Offensive roll.''),
    (''description'', JStr ''With an aggressive surge of instinctive prowess as you strike to kill. Your next attack or ability can reroll your Offenses roll.''),
    (''tags'', JArr [JStr ''type:ability'', JStr ''category:combat'', JStr ''source:race-endari'']),
    (''grantedBy'', JObj [
      (''type'', JStr ''race''),
      (''id'', JStr ''race-endari'')]),
    (''mechanics'', JObj [
      (''category'', JStr ''combat''),
      (''cost'', JStr ''No Cost''),
      (''actionType'', JStr ''1 Minor Action''),
      (''range'', JStr ''Self''),
      (''cooldown'', JStr ''3 Turn Cooldown''),
      (''rulesText'', JStr ''With an aggressive surge of instinctive prowess as you strike to kill. Your next attack or ability can reroll your Offenses roll.'')])]"

definition library_ability_endari_tentacles :: jsval where
  "library_ability_endari_tentacles = JObj [
    (''id'', JStr ''ability-endari-tentacles''),
    (''type'', JStr ''ability''),
    (''name'', JStr ''Endari Tentacles''),
    (''summary'', JStr ''Sense any movement within 30 feet, including invisible or hidden creatures.''),
    (''description'', JStr ''Your tentacles allow you to sense the environment around you. You can sense any movement within 30 feet of you, allowing you to sense invisible or hidden creatures.''),
    (''tags'', JArr [JStr ''type:ability'', JStr ''category:adventuring'', JStr ''source:race-endari'']),
    (''grantedBy'', JObj [
      (''type'', JStr ''race''),
      (''id'', JStr ''race-endari'')]),
    (''mechanics'', JObj [
      (''category'', JStr ''adventuring''),
      (''rulesText'', JStr ''Your tentacles allow you to sense the environment around you. You can sense any movement within 30 feet of you, allowing you to sense invisible or hidden creatures.'')])]"

definition library_ability_barkskin :: jsval where
  "library_ability_barkskin = JObj [
    (''id'', JStr ''ability-barkskin''),
    (''type'', JStr ''ability''),
    (''name'', JStr ''Barkskin''),
    (''summary'', JStr ''Grow protective bark and flora, granting 1d12 to your Armor pool for three turns.''),
    (''description'', JStr ''You can grow a thick layer of bark and flora around your armor, protecting you for the next three turns, granting 1d12 to your Armor pool.''),
    (''tags'', JArr [JStr ''type:ability'', JStr ''category:combat'', JStr ''source:race-feyrdrin'']),
    (''grantedBy'', JObj [
      (''type'', JStr ''race''),
      (''id'', JStr ''race-feyrdrin'')]),
    (''mechanics'', JObj [
      (''category'', JStr ''combat''),
      (''cost'', JStr ''No Cost''),
      (''actionType'', JStr ''1 Minor Action''),
      (''range'', JStr ''Self''),
      (''cooldown'', JStr ''6 Turn Cooldown''),
      (''duration'', JStr ''the next three turns''),
      (''rulesText'', JStr ''You can grow a thick layer of bark and flora around your armor, protecting you for the next three turns, granting 1d12 to your Armor pool.'')])]"

definition library_ability_feyrdrin_footing :: jsval where
  "library_ability_feyrdrin_footing = JObj [
    (''id'', JStr ''ability-feyrdrin-footing''),
    (''type'', JStr ''ability''),
    (''name'', JStr ''Feyrdrin Footing''),
    (''summary'', JStr ''Leave no trace when traveling and ignore natural difficult terrain.''),
    (''description'', JStr (''Your people'' @ rsquo @ ''s reverence of nature is expressed in a gentle touch toward the earth. When you travel, you leave no trace of your footsteps behind you, and stepping on fragile grass or other plant life does not break or disturb them in any way. This is often seen by others as almost floating across surfaces. Additionally when traveling through nature, the environment twists and lightens the journey. You and your party are not impeded by natural difficult terrains.'')),
    (''tags'', JArr [JStr ''type:ability'', JStr ''category:adventuring'', JStr ''source:race-feyrdrin'']),
    (''grantedBy'', JObj [
      (''type'', JStr ''race''),
      (''id'', JStr ''race-feyrdrin'')]),
    (''mechanics'', JObj [
      (''category'', JStr ''adventuring''),
      (''rulesText'', JStr (''Your people'' @ rsquo @ ''s reverence of nature is expressed in a gentle touch toward the earth. When you travel, you leave no trace of your footsteps behind you, and stepping on fragile grass or other plant life does not break or disturb them in any way. This is often seen by others as almost floating across surfaces. Additionally when traveling through nature, the environment twists and lightens the journey. You and your party are not impeded by natural difficult terrains.''))])]"

definition library_ability_earth_tremor :: jsval where
  "library_ability_earth_tremor = JObj [
    (''id'', JStr ''ability-earth-tremor''),
    (''type'', JStr ''ability''),
    (''name'', JStr ''Earth Tremor''),
    (''summary'', JStr ''Knock all targets within 30 feet prone and slow their movement until your next turn.''),
    (''description'', JStr ''Shake the ground beneath your feet, causing all targets within 30 feet of you to be knocked Prone (PF). Additionally creatures have their movement speed slowed by half when moving through the area until the start of your next turn.''),
    (''tags'', JArr [JStr ''type:ability'', JStr ''category:combat'', JStr ''source:race-geodran'']),
    (''grantedBy'', JObj [
      (''type'', JStr ''race''),
      (''id'', JStr ''race-geodran'')]),
    (''mechanics'', JObj [
      (''category'', JStr ''combat''),
      (''cost'', JStr ''No Cost''),
      (''actionType'', JStr ''1 Action''),
      (''range'', JStr ''Self''),
      (''cooldown'', JStr ''6 Turn Cooldown''),
      (''rulesText'', JStr ''Shake the ground beneath your feet, causing all targets within 30 feet of you to be knocked Prone (PF). Additionally creatures have their movement speed slowed by half when moving through the area until the start of your next turn.'')])]"

definition library_ability_sensing_tremor :: jsval where
  "library_ability_sensing_tremor = JObj [
    (''id'', JStr ''ability-sensing-tremor''),
    (''type'', JStr ''ability''),
    (''name'', JStr ''Sensing Tremor''),
    (''summary'', JStr ''Sense what creatures are within 1000 feet of you by channeling through the earth.''),
    (''description'', JStr ''You can spend a minute channeling your natural connection with the earth to send out a tremor that tells you what creatures are within 1000 feet of you''),
    (''tags'', JArr [JStr ''type:ability'', JStr ''category:adventuring'', JStr ''source:race-geodran'']),
    (''grantedBy'', JObj [
      (''type'', JStr ''race''),
      (''id'', JStr ''race-geodran'')]),
    (''mechanics'', JObj [
      (''category'', JStr ''adventuring''),
      (''rulesText'', JStr ''You can spend a minute channeling your natural connection with the earth to send out a tremor that tells you what creatures are within 1000 feet of you'')])]"

definition library_ability_creeping_darkness :: jsval where
  "library_ability_creeping_darkness = JObj [
    (''id'', JStr ''ability-creeping-darkness''),
    (''type'', JStr ''ability''),
    (''name'', JStr ''Creeping Darkness''),
    (''summary'', JStr ''Fill a 20-foot radius sphere with darkness that blinds creatures for 2 turns.''),
    (''description'', JStr ''Fill a 20 foot radius sphere with a cloud of darkness. Creatures within the darkness become Blinded unless they can see through darkness. The darkness cloud lasts for 2 turns.''),
    (''tags'', JArr [JStr ''type:ability'', JStr ''category:combat'', JStr ''source:race-omr'']),
    (''grantedBy'', JObj [
      (''type'', JStr ''race''),
      (''id'', JStr ''race-omr'')]),
    (''mechanics'', JObj [
      (''category'', JStr ''combat''),
      (''cost'', JStr ''No Cost''),
      (''actionType'', JStr ''1 Action''),
      (''range'', JStr ''Self''),
      (''cooldown'', JStr ''6 Turn Cooldown''),
      (''duration'', JStr ''2 turns''),
      (''rulesText'', JStr ''Fill a 20 foot radius sphere with a cloud of darkness. Creatures within the darkness become Blinded unless they can see through darkness. The darkness cloud lasts for 2 turns.'')])]"

definition library_ability_omr_sight :: jsval where
  "library_ability_omr_sight = JObj [
    (''id'', JStr ''ability-omr-sight''),
    (''type'', JStr ''ability''),
    (''name'', JStr ''Omr Sight''),
    (''summary'', JStr ''See in the dark as normal light, but suffer -1 Fatigue from prolonged sunlight.''),
    (''description'', JStr ''Your eyes have adapted to the darkness of night or caves. You are able to see in the dark as though it were normal light. Spending days and fighting in direct sunlight throughout the day causes -1 to Fatigue.''),
    (''tags'', JArr [JStr ''type:ability'', JStr ''category:adventuring'', JStr ''source:race-omr'']),
    (''grantedBy'', JObj [
      (''type'', JStr ''race''),
      (''id'', JStr ''race-omr'')]),
    (''mechanics'', JObj [
      (''category'', JStr ''adventuring''),
      (''rulesText'', JStr ''Your eyes have adapted to the darkness of night or caves. You are able to see in the dark as though it were normal light. Spending days and fighting in direct sunlight throughout the day causes -1 to Fatigue.'')])]"

definition library_ability_primal_roar_novice :: jsval where
  "library_ability_primal_roar_novice = JObj [
    (''id'', JStr ''ability-primal-roar-novice''),
    (''type'', JStr ''ability''),
    (''name'', JStr ''Primal Roar''),
    (''summary'', JStr ''Frighten a target within 30 feet for 3 turns.''),
    (''description'', JStr ''Let out an intense roar at a target within 30 feet. The creature becomes Frightened (MF) for the next 3 turns.''),
    (''tags'', JArr [JStr ''type:ability'', JStr ''category:combat'', JStr ''source:race-wildeman'']),
    (''grantedBy'', JObj [
      (''type'', JStr ''race''),
      (''id'', JStr ''race-wildeman'')]),
    (''mechanics'', JObj [
      (''category'', JStr ''combat''),
      (''cost'', JStr ''No Cost''),
      (''actionType'', JStr ''1 Action''),
      (''range'', JStr ''30 feet''),
      (''cooldown'', JStr ''3 Turn Cooldown''),
      (''rulesText'', JStr ''Let out an intense roar at a target within 30 feet. The creature becomes Frightened (MF) for the next 3 turns.'')])]"

definition library_ability_wild_form :: jsval where
  "library_ability_wild_form = JObj [
    (''id'', JStr ''ability-wild-form''),
    (''type'', JStr ''ability''),
    (''name'', JStr ''Wild Form''),
    (''summary'', JStr ''Spend Bend Luck to gain a chosen wild trait until you rest or change form.''),
    (''description'', JStr ''Use your ability of twisting the Fates to physically shift your form to exhibit wild traits. Use an instance of Bend Luck to gain the benefit until you rest or use another Bend Fate to change your form:\<newline>Climbing Appendages - Gain a Climb Speed equal to your Speed\<newline>Wild Leap - Gain ability to leap up to 20 feet\<newline>Swimming Appendages - Gain a Swim Speed equal to your Speed and gain the ability to breathe underwater\<newline>Wild Movement - Add 15 feet to your Speed\<newline>Beast of Burden - Double carrying capacity\<newline>Echolocation - gain blindsight up to 30 feet\<newline>Keen Hearing - Add 1d6 to Observation checks involving hearing\<newline>Keen Smell - Add 1d6 to Observation checks involving smell\<newline>Keen Sight - Add 1d6 to Observation checks involving sight''),
    (''tags'', JArr [JStr ''type:ability'', JStr ''category:adventuring'', JStr ''source:race-wildeman'']),
    (''grantedBy'', JObj [
      (''type'', JStr ''race''),
      (''id'', JStr ''race-wildeman'')]),
    (''mechanics'', JObj [
      (''category'', JStr ''adventuring''),
      (''rulesText'', JStr ''Use your ability of twisting the Fates to physically shift your form to exhibit wild traits. Use an instance of Bend Luck to gain the benefit until you rest or use another Bend Fate to change your form:\<newline>Climbing Appendages - Gain a Climb Speed equal to your Speed\<newline>Wild Leap - Gain ability to leap up to 20 feet\<newline>Swimming Appendages - Gain a Swim Speed equal to your Speed and gain the ability to breathe underwater\<newline>Wild Movement - Add 15 feet to your Speed\<newline>Beast of Burden - Double carrying capacity\<newline>Echolocation - gain blindsight up to 30 feet\<newline>Keen Hearing - Add 1d6 to Observation checks involving hearing\<newline>Keen Smell - Add 1d6 to Observation checks involving smell\<newline>Keen Sight - Add 1d6 to Observation checks involving sight'')])]"

definition library_ability_seed_of_paranoia :: jsval where
  "library_ability_seed_of_paranoia = JObj [
    (''id'', JStr ''ability-seed-of-paranoia''),
    (''type'', JStr ''ability''),
    (''name'', JStr ''Seed of Paranoia''),
    (''summary'', JStr ''Deal Shadow Damage and make a target Paranoid.''),
    (''description'', JStr (''Connect minds with a target within range, and psychically leave a seed of impending doom deep within the target'' @ rsquo @ ''s psyche. The target takes 3+Willpower Shadow Damage and becomes Paranoid.'')),
    (''tags'', JArr [JStr ''type:ability'', JStr ''category:combat'', JStr ''source:race-thulhan'']),
    (''grantedBy'', JObj [
      (''type'', JStr ''race''),
      (''id'', JStr ''race-thulhan'')]),
    (''mechanics'', JObj [
      (''category'', JStr ''combat''),
      (''cost'', JStr ''No Cost''),
      (''actionType'', JStr ''1 Action''),
      (''range'', JStr ''30 feet''),
      (''cooldown'', JStr ''6 Turn Cooldown''),
      (''rulesText'', JStr (''Connect minds with a target within range, and psychically leave a seed of impending doom deep within the target'' @ rsquo @ ''s psyche. The target takes 3+Willpower Shadow Damage and becomes Paranoid.''))])]"

definition library_ability_thul_speech :: jsval where
  "library_ability_thul_speech = JObj [
    (''id'', JStr ''ability-thul-speech''),
    (''type'', JStr ''ability''),
    (''name'', JStr ''Thul Speech''),
    (''summary'', JStr ''Telepathically communicate with a willing creature within 30 feet.''),
    (''description'', JStr ''You can reach out with your mind to a target within 30 feet of you. You are able to telepathically communicate with the creature back and forth if the creature opens their mind to yours and is willing to communicate. The creature must remain within 30 feet of you, and must be able to speak a language.''),
    (''tags'', JArr [JStr ''type:ability'', JStr ''category:adventuring'', JStr ''source:race-thulhan'']),
    (''grantedBy'', JObj [
      (''type'', JStr ''race''),
      (''id'', JStr ''race-thulhan'')]),
    (''mechanics'', JObj [
      (''category'', JStr ''adventuring''),
      (''rulesText'', JStr ''You can reach out with your mind to a target within 30 feet of you. You are able to telepathically communicate with the creature back and forth if the creature opens their mind to yours and is willing to communicate. The creature must remain within 30 feet of you, and must be able to speak a language.'')])]"

definition library_ability_sun_ray :: jsval where
  "library_ability_sun_ray = JObj [
    (''id'', JStr ''ability-sun-ray''),
    (''type'', JStr ''ability''),
    (''name'', JStr ''Sun Ray''),
    (''summary'', JStr ''Fire a 30-foot line of sunlight that deals Light Damage and blinds targets.''),
    (''description'', JStr ''Release a 30 foot long, 5 foot wide line of powerful sunlight. Creatures hit by this line take 5+Willpower Light Damage and become Blinded (BF) until the start of your next turn.''),
    (''tags'', JArr [JStr ''type:ability'', JStr ''category:combat'', JStr ''source:race-jackal'']),
    (''grantedBy'', JObj [
      (''type'', JStr ''race''),
      (''id'', JStr ''race-jackal'')]),
    (''mechanics'', JObj [
      (''category'', JStr ''combat''),
      (''cost'', JStr ''No Cost''),
      (''actionType'', JStr ''1 Action''),
      (''range'', JStr ''Self''),
      (''cooldown'', JStr ''6 Turn Cooldown''),
      (''rulesText'', JStr ''Release a 30 foot long, 5 foot wide line of powerful sunlight. Creatures hit by this line take 5+Willpower Light Damage and become Blinded (BF) until the start of your next turn.'')])]"

definition library_ability_deaths_guise :: jsval where
  "library_ability_deaths_guise = JObj [
    (''id'', JStr ''ability-deaths-guise''),
    (''type'', JStr ''ability''),
    (''name'', JStr (''Death'' @ rsquo @ ''s Guise'')),
    (''summary'', JStr ''Gain an illusionary disguise and memories of a dead humanoid you touch.''),
    (''description'', JStr (''You gain the ability to touch a dead humanoid, you then gain the target'' @ rsquo @ ''s voice, a few memories. You can then wrap yourself in an illusionary disguise that matches that of the dead target. This disguise is convincing, but under scrutiny can be fallible. If contested, Deception versus Intuition. You can use the illusion portion of this ability a number of times equal to your Deception Rank per day. You retain the guises gathered in this manner for as long as you desire.'')),
    (''tags'', JArr [JStr ''type:ability'', JStr ''category:adventuring'', JStr ''source:race-jackal'']),
    (''grantedBy'', JObj [
      (''type'', JStr ''race''),
      (''id'', JStr ''race-jackal'')]),
    (''mechanics'', JObj [
      (''category'', JStr ''adventuring''),
      (''rulesText'', JStr (''You gain the ability to touch a dead humanoid, you then gain the target'' @ rsquo @ ''s voice, a few memories. You can then wrap yourself in an illusionary disguise that matches that of the dead target. This disguise is convincing, but under scrutiny can be fallible. If contested, Deception versus Intuition. You can use the illusion portion of this ability a number of times equal to your Deception Rank per day. You retain the guises gathered in this manner for as long as you desire.''))])]"

text \<open>\<^verbatim>\<open>GRPG_LIBRARY\<close>, line 168 of \<^verbatim>\<open>src/library.js\<close>.\<close>

definition library_GRPG_LIBRARY :: jsval where
  "library_GRPG_LIBRARY = JObj [
    (''tags'', library_TAG_DEFINITIONS),
    (''races'', JObj [
      (''race-tettari'', library_race_tettari),
      (''race-bartusa'', library_race_bartusa),
      (''race-astrellidari'', library_race_astrellidari),
      (''race-wulkaran'', library_race_wulkaran),
      (''race-ignium'', library_race_ignium),
      (''race-animation'', library_race_animation),
      (''race-endari'', library_race_endari),
      (''race-feyrdrin'', library_race_feyrdrin),
      (''race-geodran'', library_race_geodran),
      (''race-omr'', library_race_omr),
      (''race-wildeman'', library_race_wildeman),
      (''race-thulhan'', library_race_thulhan),
      (''race-jackal'', library_race_jackal)]),
    (''classes'', JObj []),
    (''origins'', JObj []),
    (''circles'', JObj []),
    (''traits'', JObj []),
    (''abilities'', JObj [
      (''ability-tettari-blink'', library_ability_tettari_blink),
      (''ability-tettari-stew'', library_ability_tettari_stew),
      (''ability-unstoppable-charge'', library_ability_unstoppable_charge),
      (''ability-word-of-honor'', library_ability_word_of_honor),
      (''ability-touch-of-the-cosmos'', library_ability_touch_of_the_cosmos),
      (''ability-arcane-intuition'', library_ability_arcane_intuition),
      (''ability-wulkaran-rage'', library_ability_wulkaran_rage),
      (''ability-wulkaran-senses'', library_ability_wulkaran_senses),
      (''ability-ignis-unleashed'', library_ability_ignis_unleashed),
      (''ability-fire-in-their-eye'', library_ability_fire_in_their_eye),
      (''ability-internal-spark'', library_ability_internal_spark),
      (''ability-spark-of-life'', library_ability_spark_of_life),
      (''ability-aggressive-surge'', library_ability_aggressive_surge),
      (''ability-endari-tentacles'', library_ability_endari_tentacles),
      (''ability-barkskin'', library_ability_barkskin),
      (''ability-feyrdrin-footing'', library_ability_feyrdrin_footing),
      (''ability-earth-tremor'', library_ability_earth_tremor),
      (''ability-sensing-tremor'', library_ability_sensing_tremor),
      (''ability-creeping-darkness'', library_ability_creeping_darkness),
      (''ability-omr-sight'', library_ability_omr_sight),
      (''ability-primal-roar-novice'', library_ability_primal_roar_novice),
      (''ability-wild-form'', library_ability_wild_form),
      (''ability-seed-of-paranoia'', library_ability_seed_of_paranoia),
      (''ability-thul-speech'', library_ability_thul_speech),
      (''ability-sun-ray'', library_ability_sun_ray),
      (''ability-deaths-guise'', library_ability_deaths_guise)]),
    (''items'', JObj []),
    (''professions'', JObj [])]"

subsection \<open>The data of \<^verbatim>\<open>src/GRPGLibrary0.0.1.js\<close>\<close>

text \<open>\<^verbatim>\<open>TAG_DEFINITIONS\<close>, line 44 of \<^verbatim>\<open>src/GRPGLibrary0.0.1.js\<close>.\<close>

definition v001_TAG_DEFINITIONS :: jsval where
  "v001_TAG_DEFINITIONS = JObj [
    (''type:race'', JObj [
      (''category'', JStr ''type''),
      (''description'', JStr ''Marks a record as a Race (e.g., Tettari, Feyrdrin, Wildeman).'')]),
    (''type:class'', JObj [
      (''category'', JStr ''type''),
      (''description'', JStr ''Marks a record as a Class (e.g., Ranger, Warden, Arcanist).'')]),
    (''type:origin'', JObj [
      (''category'', JStr ''type''),
      (''description'', JStr ''Marks a record as an Origin / background-style record.'')]),
    (''type:circle'', JObj [
      (''category'', JStr ''type''),
      (''description'', JStr ''Marks a record as a Circle (GRPG magic / specialty groups).'')]),
    (''type:trait'', JObj [
      (''category'', JStr ''type''),
      (''description'', JStr ''Marks a record as an Adventuring Trait (passive bonuses).'')]),
    (''type:ability'', JObj [
      (''category'', JStr ''type''),
      (''description'', JStr ''Marks a record as an Adventuring Ability (active moves).'')]),
    (''type:item'', JObj [
      (''category'', JStr ''type''),
      (''description'', JStr ''Marks a record as an item (weapon, armor, gear, etc.).'')]),
    (''type:profession'', JObj [
      (''category'', JStr ''type''),
      (''description'', JStr ''Marks a record as a Profession / non-combat role.'')]),
    (''faction:wardens'', JObj [
      (''category'', JStr ''faction''),
      (''description'', JStr ''Belongs to or is strongly associated with the Wardens.'')]),
    (''faction:underground'', JObj [
      (''category'', JStr ''faction''),
      (''description'', JStr ''Tied to underground-focused groups, cultures, or powers.'')]),
    (''faction:neutral'', JObj [
      (''category'', JStr ''faction''),
      (''description'', JStr ''Deliberately neutral / unaffiliated with major factions.'')]),
    (''realm:surface'', JObj [
      (''category'', JStr ''realm''),
      (''description'', JStr ''Primarily associated with surface regions of Daelinar.'')]),
    (''realm:underground'', JObj [
      (''category'', JStr ''realm''),
      (''description'', JStr ''Primarily associated with subterranean regions.'')]),
    (''realm:astral'', JObj [
      (''category'', JStr ''realm''),
      (''description'', JStr ''Associated with astral / Weave / fleet contexts.'')]),
    (''role:martial'', JObj [
      (''category'', JStr ''role''),
      (''description'', JStr ''Focuses on physical combat, weapons, toughness.'')]),
    (''role:skirmisher'', JObj [
      (''category'', JStr ''role''),
      (''description'', JStr ''Mobile, hit-and-run, often ranged or agile melee.'')]),
    (''role:caster'', JObj [
      (''category'', JStr ''role''),
      (''description'', JStr ''Primarily interacts with the Weave / magic systems.'')]),
    (''role:support'', JObj [
      (''category'', JStr ''role''),
      (''description'', JStr ''Buffs allies, debuffs enemies, or controls the field.'')]),
    (''role:utility'', JObj [
      (''category'', JStr ''role''),
      (''description'', JStr ''Primarily provides exploration, social, or non-combat tools.'')]),
    (''tier:basic'', JObj [
      (''category'', JStr ''tier''),
      (''description'', JStr ''Starting-level content, safe for new characters.'')]),
    (''tier:advanced'', JObj [
      (''category'', JStr ''tier''),
      (''description'', JStr ''Mid-level power, requires some character progression.'')]),
    (''tier:elite'', JObj [
      (''category'', JStr ''tier''),
      (''description'', JStr ''High-level / rare content; powerful or campaign-defining.'')]),
    (''status:core'', JObj [
      (''category'', JStr ''status''),
      (''description'', JStr ''Core rulebook content; stable and part of the main game.'')]),
    (''status:playtest'', JObj [
      (''category'', JStr ''status''),
      (''description'', JStr ''Experimental content; subject to change or removal.'')]),
    (''source:core-rulebook'', JObj [
      (''category'', JStr ''source''),
      (''description'', JStr ''Published in the main GRPG Core Rulebook.'')]),
    (''source:supplement:wardens'', JObj [
      (''category'', JStr ''source''),
      (''description'', JStr ''From a Wardens-focused supplement or expansion.'')])]"

definition v001_race_tettari :: jsval where
  "v001_race_tettari = JObj [
    (''id'', JStr ''race-tettari''),
    (''type'', JStr ''race''),
    (''name'', JStr ''Tettari''),
    (''summary'', JStr ''Small, resilient survivors attuned to the broken ley-beasts.''),
    (''description'', JStr ''The Tettari are nimble survivors shaped by the chaos of ruptured ley-lines. Their sharp eyes and steady hands make them exceptional archers.''),
    (''tags'', JArr [JStr ''type:race'', JStr ''realm:surface'', JStr ''role:skirmisher'', JStr ''status:core'']),
    (''source'', JObj [
      (''book'', JStr ''Core Rulebook''),
      (''page'', JNum 42)]),
    (''version'', JObj [
      (''major'', JNum 1),
      (''minor'', JNum 0)]),
    (''createdAt'', JStr ''2025-11-24''),
    (''updatedAt'', JStr ''2025-11-24''),
    (''mechanics'', JObj [
      (''attributeMods'', JObj [
        (''agility'', JNum 2),
        (''willpower'', JNum 1)]),
      (''baseSpeed'', JNum 6),
      (''senses'', JArr [JStr ''low-light vision'']),
      (''innateTraits'', JArr [JStr ''trait-tettari-survivor'']),
      (''innateAbilities'', JArr [])]),
    (''lore'', JObj [
      (''homeland'', JStr ''Shattered Wilds of Daelinar''),
      (''cultureNotes'', JStr ''Tettari communities prize agility, marksmanship, and clever trickery. Many are drawn into the Wardens as scouts.''),
      (''appearanceNotes'', JStr ''Short and lean, with bright eyes that seem to track motion before it happens.'')])]"

definition v001_class_warden :: jsval where
  "v001_class_warden = JObj [
    (''id'', JStr ''class-warden''),
    (''type'', JStr ''class''),
    (''name'', JStr ''Warden''),
    (''summary'', JStr ''Guardian of the broken wilds, balancing steel, instinct, and Weave.''),
    (''description'', JStr ''Wardens patrol the fractures of Daelinar, hunting warped beasts and safeguarding settlements. They blend martial prowess with attunement to the land and the Weave.''),
    (''tags'', JArr [JStr ''type:class'', JStr ''faction:wardens'', JStr ''role:martial'', JStr ''role:utility'', JStr ''status:core'']),
    (''source'', JObj [
      (''book'', JStr ''Core Rulebook''),
      (''page'', JNum 80)]),
    (''version'', JObj [
      (''major'', JNum 1),
      (''minor'', JNum 0)]),
    (''createdAt'', JStr ''2025-11-24''),
    (''updatedAt'', JStr ''2025-11-24''),
    (''mechanics'', JObj [
      (''primaryRoles'', JArr [JStr ''role:martial'', JStr ''role:utility'']),
      (''hitDie'', JStr ''d10''),
      (''resourceModel'', JStr ''vigilance''),
      (''startingTraits'', JArr [JStr ''trait-hunter-sense'']),
      (''startingAbilities'', JArr [JStr ''ability-mark-prey'']),
      (''progressionNotes'', JStr ''Wardens gain new ways to control terrain, hunt ley-twisted creatures, and protect allies as they advance.'')])]"

definition v001_trait_tettari_survivor :: jsval where
  "v001_trait_tettari_survivor = JObj [
    (''id'', JStr ''trait-tettari-survivor''),
    (''type'', JStr ''trait''),
    (''name'', JStr ''Tettari Survivor''),
    (''summary'', JStr (''You'' @ rsquo @ ''re hard to kill and harder to corner.'')),
    (''description'', JStr (''You'' @ rsquo @ ''ve learned to read danger and slip away before it closes its jaws. Tettari often survive what would annihilate others.'')),
    (''tags'', JArr [JStr ''type:trait'', JStr ''tier:basic'', JStr ''realm:surface'', JStr ''status:core'']),
    (''source'', JObj [
      (''book'', JStr ''Core Rulebook''),
      (''page'', JNum 43)]),
    (''version'', JObj [
      (''major'', JNum 1),
      (''minor'', JNum 0)]),
    (''createdAt'', JStr ''2025-11-24''),
    (''updatedAt'', JStr ''2025-11-24''),
    (''mechanics'', JObj [
      (''rulesText'', JStr ''When you would be reduced to 0 vitality by a single hit, you may instead drop to 1 vitality once per rest. In addition, you gain advantage on checks to notice ambushes or environmental hazards.'')])]"

definition v001_ability_mark_prey :: jsval where
  "v001_ability_mark_prey = JObj [
    (''id'', JStr ''ability-mark-prey''),
    (''type'', JStr ''ability''),
    (''name'', JStr ''Mark Prey''),
    (''summary'', JStr ''Single out a target and hunt them relentlessly.''),
    (''description'', JStr ''You fix your attention on a single foe, reading their tells and exploiting every misstep.''),
    (''tags'', JArr [JStr ''type:ability'', JStr ''role:skirmisher'', JStr ''role:martial'', JStr ''tier:basic'', JStr ''status:core'']),
    (''source'', JObj [
      (''book'', JStr ''Core Rulebook''),
      (''page'', JNum 81)]),
    (''version'', JObj [
      (''major'', JNum 1),
      (''minor'', JNum 0)]),
    (''createdAt'', JStr ''2025-11-24''),
    (''updatedAt'', JStr ''2025-11-24''),
    (''mechanics'', JObj [
      (''actionType'', JStr ''action''),
      (''range'', JStr ''line of sight''),
      (''duration'', JStr ''scene''),
      (''target'', JStr ''one creature you can see''),
      (''rulesText'', JStr ''Choose a creature you can see and mark it as your prey. While the mark lasts, you gain a bonus to checks and attacks made to track, pursue, or harm that creature. If you mark a new target, the old mark ends.'')])]"

text \<open>\<^verbatim>\<open>GRPG_LIBRARY\<close>, line 213 of \<^verbatim>\<open>src/GRPGLibrary0.0.1.js\<close>.\<close>

definition v001_GRPG_LIBRARY :: jsval where
  "v001_GRPG_LIBRARY = JObj [
    (''meta'', JObj [
      (''schemaVersion'', JStr ''1.0.0''),
      (''dataVersion'', JStr ''0.1.0''),
      (''lastUpdated'', JStr ''2025-11-24''),
      (''notes'', JStr ''Initial skeleton for the G RPG Library. Fill categories gradually.'')]),
    (''tags'', v001_TAG_DEFINITIONS),
    (''races'', JObj [
      (''race-tettari'', v001_race_tettari)]),
    (''classes'', JObj [
      (''class-warden'', v001_class_warden)]),
    (''origins'', JObj []),
    (''circles'', JObj []),
    (''traits'', JObj [
      (''trait-tettari-survivor'', v001_trait_tettari_survivor)]),
    (''abilities'', JObj [
      (''ability-mark-prey'', v001_ability_mark_prey)]),
    (''items'', JObj []),
    (''professions'', JObj [])]"

subsection \<open>The data of \<^verbatim>\<open>src/unnamed/part_000\<close>\<close>

text \<open>\<^verbatim>\<open>TAG_DEFINITIONS\<close>, line 44 of \<^verbatim>\<open>src/unnamed/part_000\<close>.\<close>

definition part000_TAG_DEFINITIONS :: jsval where
  "part000_TAG_DEFINITIONS = JObj [
    (''type:race'', JObj [
      (''category'', JStr ''type''),
      (''description'', JStr ''Marks a record as a Race (e.g., Tettari, Feyrdrin, Wildeman).'')]),
    (''type:class'', JObj [
      (''category'', JStr ''type''),
      (''description'', JStr ''Marks a record as a Class (e.g., Ranger, Warden, Arcanist).'')]),
    (''type:origin'', JObj [
      (''category'', JStr ''type''),
      (''description'', JStr ''Marks a record as an Origin / background-style record.'')]),
    (''type:circle'', JObj [
      (''category'', JStr ''type''),
      (''description'', JStr ''Marks a record as a Circle (GRPG magic / specialty groups).'')]),
    (''type:trait'', JObj [
      (''category'', JStr ''type''),
      (''description'', JStr ''Marks a record as an Adventuring Trait (passive bonuses).'')]),
    (''type:ability'', JObj [
      (''category'', JStr ''type''),
      (''description'', JStr ''Marks a record as an Adventuring Ability (active moves).'')]),
    (''type:item'', JObj [
      (''category'', JStr ''type''),
      (''description'', JStr ''Marks a record as an item (weapon, armor, gear, etc.).'')]),
    (''type:profession'', JObj [
      (''category'', JStr ''type''),
      (''description'', JStr ''Marks a record as a Profession / non-combat role.'')]),
    (''faction:wardens'', JObj [
      (''category'', JStr ''faction''),
      (''description'', JStr ''Belongs to or is strongly associated with the Wardens.'')]),
    (''faction:underground'', JObj [
      (''category'', JStr ''faction''),
      (''description'', JStr ''Tied to underground-focused groups, cultures, or powers.'')]),
    (''faction:neutral'', JObj [
      (''category'', JStr ''faction''),
      (''description'', JStr ''Deliberately neutral / unaffiliated with major factions.'')]),
    (''realm:surface'', JObj [
      (''category'', JStr ''realm''),
      (''description'', JStr ''Primarily associated with surface regions of Daelinar.'')]),
    (''realm:underground'', JObj [
      (''category'', JStr ''realm''),
      (''description'', JStr ''Primarily associated with subterranean regions.'')]),
    (''realm:astral'', JObj [
      (''category'', JStr ''realm''),
      (''description'', JStr ''Associated with astral / Weave / fleet contexts.'')]),
    (''role:martial'', JObj [
      (''category'', JStr ''role''),
      (''description'', JStr ''Focuses on physical combat, weapons, toughness.'')]),
    (''role:skirmisher'', JObj [
      (''category'', JStr ''role''),
      (''description'', JStr ''Mobile, hit-and-run, often ranged or agile melee.'')]),
    (''role:caster'', JObj [
      (''category'', JStr ''role''),
      (''description'', JStr ''Primarily interacts with the Weave / magic systems.'')]),
    (''role:support'', JObj [
      (''category'', JStr ''role''),
      (''description'', JStr ''Buffs allies, debuffs enemies, or controls the field.'')]),
    (''role:utility'', JObj [
      (''category'', JStr ''role''),
      (''description'', JStr ''Primarily provides exploration, social, or non-combat tools.'')]),
    (''tier:basic'', JObj [
      (''category'', JStr ''tier''),
      (''description'', JStr ''Starting-level content, safe for new characters.'')]),
    (''tier:advanced'', JObj [
      (''category'', JStr ''tier''),
      (''description'', JStr ''Mid-level power, requires some character progression.'')]),
    (''tier:elite'', JObj [
      (''category'', JStr ''tier''),
      (''description'', JStr ''High-level / rare content; powerful or campaign-defining.'')]),
    (''status:core'', JObj [
      (''category'', JStr ''status''),
      (''description'', JStr ''Core rulebook content; stable and part of the main game.'')]),
    (''status:playtest'', JObj [
      (''category'', JStr ''status''),
      (''description'', JStr ''Experimental content; subject to change or removal.'')]),
    (''source:core-rulebook'', JObj [
      (''category'', JStr ''source''),
      (''description'', JStr ''Published in the main GRPG Core Rulebook.'')]),
    (''source:supplement:wardens'', JObj [
      (''category'', JStr ''source''),
      (''description'', JStr ''From a Wardens-focused supplement or expansion.'')])]"

definition part000_race_tettari :: jsval where
  "part000_race_tettari = JObj [
    (''id'', JStr ''race-tettari''),
    (''type'', JStr ''race''),
    (''name'', JStr ''Tettari''),
    (''summary'', JStr ''Small, resilient survivors attuned to the broken ley-beasts.''),
    (''description'', JStr ''The Tettari are nimble survivors shaped by the chaos of ruptured ley-lines. Their sharp eyes and steady hands make them exceptional archers.''),
    (''tags'', JArr [JStr ''type:race'', JStr ''realm:surface'', JStr ''role:skirmisher'', JStr ''status:core'']),
    (''source'', JObj [
      (''book'', JStr ''Core Rulebook''),
      (''page'', JNum 42)]),
    (''version'', JObj [
      (''major'', JNum 1),
      (''minor'', JNum 0)]),
    (''createdAt'', JStr ''2025-11-24''),
    (''updatedAt'', JStr ''2025-11-24''),
    (''mechanics'', JObj [
      (''attributeMods'', JObj [
        (''agility'', JNum 2),
        (''willpower'', JNum 1)]),
      (''baseSpeed'', JNum 6),
      (''senses'', JArr [JStr ''low-light vision'']),
      (''innateTraits'', JArr [JStr ''trait-tettari-survivor'']),
      (''innateAbilities'', JArr [])]),
    (''lore'', JObj [
      (''homeland'', JStr ''Shattered Wilds of Daelinar''),
      (''cultureNotes'', JStr ''Tettari communities prize agility, marksmanship, and clever trickery. Many are drawn into the Wardens as scouts.''),
      (''appearanceNotes'', JStr ''Short and lean, with bright eyes that seem to track motion before it happens.'')])]"

definition part000_class_warden :: jsval where
  "part000_class_warden = JObj [
    (''id'', JStr ''class-warden''),
    (''type'', JStr ''class''),
    (''name'', JStr ''Warden''),
    (''summary'', JStr ''Guardian of the broken wilds, balancing steel, instinct, and Weave.''),
    (''description'', JStr ''Wardens patrol the fractures of Daelinar, hunting warped beasts and safeguarding settlements. They blend martial prowess with attunement to the land and the Weave.''),
    (''tags'', JArr [JStr ''type:class'', JStr ''faction:wardens'', JStr ''role:martial'', JStr ''role:utility'', JStr ''status:core'']),
    (''source'', JObj [
      (''book'', JStr ''Core Rulebook''),
      (''page'', JNum 80)]),
    (''version'', JObj [
      (''major'', JNum 1),
      (''minor'', JNum 0)]),
    (''createdAt'', JStr ''2025-11-24''),
    (''updatedAt'', JStr ''2025-11-24''),
    (''mechanics'', JObj [
      (''primaryRoles'', JArr [JStr ''role:martial'', JStr ''role:utility'']),
      (''hitDie'', JStr ''d10''),
      (''resourceModel'', JStr ''vigilance''),
      (''startingTraits'', JArr [JStr ''trait-hunter-sense'']),
      (''startingAbilities'', JArr [JStr ''ability-mark-prey'']),
      (''progressionNotes'', JStr ''Wardens gain new ways to control terrain, hunt ley-twisted creatures, and protect allies as they advance.'')])]"

definition part000_trait_tettari_survivor :: jsval where
  "part000_trait_tettari_survivor = JObj [
    (''id'', JStr ''trait-tettari-survivor''),
    (''type'', JStr ''trait''),
    (''name'', JStr ''Tettari Survivor''),
    (''summary'', JStr (''You'' @ rsquo @ ''re hard to kill and harder to corner.'')),
    (''description'', JStr (''You'' @ rsquo @ ''ve learned to read danger and slip away before it closes its jaws. Tettari often survive what would annihilate others.'')),
    (''tags'', JArr [JStr ''type:trait'', JStr ''tier:basic'', JStr ''realm:surface'', JStr ''status:core'']),
    (''source'', JObj [
      (''book'', JStr ''Core Rulebook''),
      (''page'', JNum 43)]),
    (''version'', JObj [
      (''major'', JNum 1),
      (''minor'', JNum 0)]),
    (''createdAt'', JStr ''2025-11-24''),
    (''updatedAt'', JStr ''2025-11-24''),
    (''mechanics'', JObj [
      (''rulesText'', JStr ''When you would be reduced to 0 vitality by a single hit, you may instead drop to 1 vitality once per rest. In addition, you gain advantage on checks to notice ambushes or environmental hazards.'')])]"

definition part000_ability_mark_prey :: jsval where
  "part000_ability_mark_prey = JObj [
    (''id'', JStr ''ability-mark-prey''),
    (''type'', JStr ''ability''),
    (''name'', JStr ''Mark Prey''),
    (''summary'', JStr ''Single out a target and hunt them relentlessly.''),
    (''description'', JStr ''You fix your attention on a single foe, reading their tells and exploiting every misstep.''),
    (''tags'', JArr [JStr ''type:ability'', JStr ''role:skirmisher'', JStr ''role:martial'', JStr ''tier:basic'', JStr ''status:core'']),
    (''source'', JObj [
      (''book'', JStr ''Core Rulebook''),
      (''page'', JNum 81)]),
    (''version'', JObj [
      (''major'', JNum 1),
      (''minor'', JNum 0)]),
    (''createdAt'', JStr ''2025-11-24''),
    (''updatedAt'', JStr ''2025-11-24''),
    (''mechanics'', JObj [
      (''actionType'', JStr ''action''),
      (''range'', JStr ''line of sight''),
      (''duration'', JStr ''scene''),
      (''target'', JStr ''one creature you can see''),
      (''rulesText'', JStr ''Choose a creature you can see and mark it as your prey. While the mark lasts, you gain a bonus to checks and attacks made to track, pursue, or harm that creature. If you mark a new target, the old mark ends.'')])]"

text \<open>\<^verbatim>\<open>GRPG_LIBRARY\<close>, line 213 of \<^verbatim>\<open>src/unnamed/part_000\<close>.\<close>

definition part000_GRPG_LIBRARY :: jsval where
  "part000_GRPG_LIBRARY = JObj [
    (''meta'', JObj [
      (''schemaVersion'', JStr ''1.0.0''),
      (''dataVersion'', JStr ''0.1.0''),
      (''lastUpdated'', JStr ''2025-11-24''),
      (''notes'', JStr ''Initial skeleton for the G RPG Library. Fill categories gradually.'')]),
    (''tags'', part000_TAG_DEFINITIONS),
    (''races'', JObj [
      (''race-tettari'', part000_race_tettari)]),
    (''classes'', JObj [
      (''class-warden'', part000_class_warden)]),
    (''origins'', JObj []),
    (''circles'', JObj []),
    (''traits'', JObj [
      (''trait-tettari-survivor'', part000_trait_tettari_survivor)]),
    (''abilities'', JObj [
      (''ability-mark-prey'', part000_ability_mark_prey)]),
    (''items'', JObj []),
    (''professions'', JObj [])]"

section \<open>Reading a library\<close>

text \<open>The three datasets and their tag dictionaries.\<close>

definition datasets :: "jsval list" where
  "datasets = [library_GRPG_LIBRARY, v001_GRPG_LIBRARY, part000_GRPG_LIBRARY]"

definition tag_dictionaries :: "jsval list" where
  "tag_dictionaries = [library_TAG_DEFINITIONS, v001_TAG_DEFINITIONS, part000_TAG_DEFINITIONS]"

text \<open>
  The category buckets of the library object, each with the \<^verbatim>\<open>type\<close> its shape
  comment gives its records (\<^verbatim>\<open>races: { [raceId]: { type: "race", ... } }\<close>).
\<close>

definition bucket_types :: "(string \<times> string) list" where
  "bucket_types =
     [(''races'', ''race''), (''classes'', ''class''), (''origins'', ''origin''),
      (''circles'', ''circle''), (''traits'', ''trait''), (''abilities'', ''ability''),
      (''items'', ''item''), (''professions'', ''profession'')]"

definition categories :: "string list" where
  "categories = map fst bucket_types"

definition bucket_of_type :: "string \<Rightarrow> string option" where
  "bucket_of_type ty = map_of (map (\<lambda>(b, t). (t, b)) bucket_types) ty"

text \<open>The records of a bucket, \<^verbatim>\<open>Object.entries(lib[b])\<close>.\<close>

definition bucket :: "jsval \<Rightarrow> string \<Rightarrow> (string \<times> jsval) list" where
  "bucket lib b = (case getp lib b of Some v \<Rightarrow> entries v | None \<Rightarrow> [])"

text \<open>\<^verbatim>\<open>lib[b][i] !== undefined\<close>: the id \<open>i\<close> is a key of bucket \<open>b\<close>.\<close>

definition resolves :: "jsval \<Rightarrow> string \<Rightarrow> string \<Rightarrow> bool" where
  "resolves lib b i = (map_of (bucket lib b) i \<noteq> None)"

definition tag_dictionary :: "jsval \<Rightarrow> jsval" where
  "tag_dictionary lib = (case getp lib ''tags'' of Some d \<Rightarrow> d | None \<Rightarrow> JObj [])"

definition rec_tags :: "jsval \<Rightarrow> string list" where
  "rec_tags r = str_elems (getp r ''tags'')"

text \<open>The \<^verbatim>\<open>id\<close> fields of all records of a library, bucket after bucket.\<close>

definition record_ids :: "jsval \<Rightarrow> jsval option list" where
  "record_ids lib = concat (map (\<lambda>b. map (\<lambda>(k, r). getp r ''id'') (bucket lib b)) categories)"

text \<open>
  The header of each file: ``All IDs are lowercase-with-dashes''. An id of that pattern is a
  string of lowercase letters and dashes.
\<close>

definition lowercase_with_dashes :: "string \<Rightarrow> bool" where
  "lowercase_with_dashes s = list_all (\<lambda>c. c \<in> set ''abcdefghijklmnopqrstuvwxyz-'') s"

fun id_ok :: "jsval option \<Rightarrow> bool" where
  "id_ok (Some (JStr s)) = lowercase_with_dashes s"
| "id_ok _ = False"

text \<open>\<^verbatim>\<open>grantedBy\<close> of an ability: its \<^verbatim>\<open>type\<close> and \<^verbatim>\<open>id\<close>.\<close>

definition granted_by :: "jsval \<Rightarrow> (string \<times> string) option" where
  "granted_by r =
     (case getp r ''grantedBy'' of
        None \<Rightarrow> None
      | Some g \<Rightarrow>
          (case (getp g ''type'', getp g ''id'') of
             (Some (JStr ty), Some (JStr i)) \<Rightarrow> Some (ty, i)
           | _ \<Rightarrow> None))"

text \<open>
  The identifiers a record of bucket \<open>b\<close> holds in its reference fields, each with the
  bucket it is expected in (\<open>None\<close> when \<^verbatim>\<open>grantedBy.type\<close> names no bucket).
\<close>

definition id_refs :: "string \<Rightarrow> jsval \<Rightarrow> (string option \<times> string) list" where
  "id_refs b r =
     (if b = ''races'' then
        map (Pair (Some ''traits'')) (str_elems (getpath r [''mechanics'', ''innateTraits''])) @
        map (Pair (Some ''abilities'')) (str_elems (getpath r [''mechanics'', ''innateAbilities'']))
      else if b = ''classes'' then
        map (Pair (Some ''traits'')) (str_elems (getpath r [''mechanics'', ''startingTraits''])) @
        map (Pair (Some ''abilities'')) (str_elems (getpath r [''mechanics'', ''startingAbilities'']))
      else if b = ''abilities'' then
        (case granted_by r of None \<Rightarrow> [] | Some (ty, i) \<Rightarrow> [(bucket_of_type ty, i)])
      else [])"

fun ref_resolves :: "jsval \<Rightarrow> string option \<times> string \<Rightarrow> bool" where
  "ref_resolves lib (Some b, i) = resolves lib b i"
| "ref_resolves lib (None, i) = False"

text \<open>
  Choice groups (the conventions comment of \<^verbatim>\<open>src/library.js\<close>): a key of
  \<^verbatim>\<open>attributeMods\<close> that ends with an underscore and one uppercase letter belongs to the
  choice group of that letter.
\<close>

definition choice_group :: "string \<Rightarrow> char option" where
  "choice_group k =
     (case rev k of
        c # u # _ \<Rightarrow>
          if u = CHR ''_'' \<and> c \<in> set ''ABCDEFGHIJKLMNOPQRSTUVWXYZ'' then Some c else None
      | _ \<Rightarrow> None)"

definition attribute_keys :: "jsval \<Rightarrow> string list" where
  "attribute_keys r =
     (case getpath r [''mechanics'', ''attributeMods''] of
        Some m \<Rightarrow> map fst (entries m)
      | None \<Rightarrow> [])"

definition group_keys :: "jsval \<Rightarrow> char \<Rightarrow> string list" where
  "group_keys r g = filter (\<lambda>k. choice_group k = Some g) (attribute_keys r)"

text \<open>The keys of the tag dictionary a library carries as \<^verbatim>\<open>tags\<close>.\<close>

definition tag_keys :: "jsval \<Rightarrow> string list" where
  "tag_keys lib = map fst (entries (tag_dictionary lib))"

text \<open>\<^verbatim>\<open>s.startsWith(p)\<close>.\<close>

definition starts_with :: "string \<Rightarrow> string \<Rightarrow> bool" where
  "starts_with s p = (take (length p) s = p)"

text \<open>
  The references of a library that do not resolve: the bucket and key of the record that
  holds the reference, the bucket the identifier is expected in, and the identifier.
\<close>

definition dangling :: "jsval \<Rightarrow> (string \<times> string \<times> string option \<times> string) list" where
  "dangling lib =
     concat (map (\<lambda>b. concat (map (\<lambda>(k, r).
       map (\<lambda>ref. (b, k, ref)) (filter (\<lambda>ref. \<not> ref_resolves lib ref) (id_refs b r)))
       (bucket lib b))) categories)"

text \<open>
  The forward link of a race to an ability: the race is in the \<^verbatim>\<open>races\<close> bucket and
  its \<^verbatim>\<open>mechanics.innateAbilities\<close> holds the ability's id.
\<close>

definition lists_ability :: "jsval \<Rightarrow> string \<Rightarrow> string \<Rightarrow> bool" where
  "lists_ability lib race a =
     (case map_of (bucket lib ''races'') race of
        None \<Rightarrow> False
      | Some r \<Rightarrow> a \<in> set (str_elems (getpath r [''mechanics'', ''innateAbilities''])))"

text \<open>
  The abilities of a library granted by a race that has no forward link back to them: the
  key of the ability and the id of the race.
\<close>

definition asymmetric :: "jsval \<Rightarrow> (string \<times> string) list" where
  "asymmetric lib =
     concat (map (\<lambda>(k, r).
       case granted_by r of
         None \<Rightarrow> []
       | Some (ty, i) \<Rightarrow>
           if ty = ''race'' \<and>
              \<not> (case getp r ''id'' of Some (JStr a) \<Rightarrow> lists_ability lib i a | _ \<Rightarrow> False)
           then [(k, i)] else [])
       (bucket lib ''abilities''))"

section \<open>The Content Store\<close>

text \<open>
  Modelled from the spec: the Content Store of section 4.3 of the specification and its
  error \<^verbatim>\<open>DuplicateId\<close> of section 7. No file of the repository implements a store;
  the three files are object literals.
\<close>

datatype store_error = DuplicateId

text \<open>
  Modelled from the spec: the store, ``in-memory collection of records, grouped by
  category'', with \<^verbatim>\<open>allOf(category)\<close> in insertion order. The specification leaves
  open whether cross-category uniqueness is enforced, so a store says which it does.
\<close>

record content_store =
  cross_category :: bool
  contents :: "string \<Rightarrow> jsval list"

text \<open>Modelled from the spec: the ids already present in a category of the store.\<close>

definition stored_ids :: "content_store \<Rightarrow> string \<Rightarrow> jsval option list" where
  "stored_ids s c = map (\<lambda>r. getp r ''id'') (contents s c)"

text \<open>
  Modelled from the spec: ``an id collides within the category (or, if cross-category
  uniqueness is enforced, across all categories)''.
\<close>

definition collides :: "content_store \<Rightarrow> string \<Rightarrow> jsval \<Rightarrow> bool" where
  "collides s c r =
     (getp r ''id'' \<in> set (stored_ids s c) \<or>
      cross_category s \<and> list_ex (\<lambda>c'. getp r ''id'' \<in> set (stored_ids s c')) categories)"

text \<open>
  Modelled from the spec: \<^verbatim>\<open>add(category, record)\<close>, which ``fails with
  \<^verbatim>\<open>DuplicateId\<close>'' on a collision and ``leaves the store unchanged'', and otherwise
  stores the record last in its category with no validation. It returns the outcome and the
  store after the call.
\<close>

definition add :: "string \<Rightarrow> jsval \<Rightarrow> content_store \<Rightarrow> (store_error + unit) \<times> content_store" where
  "add c r s =
     (if collides s c r then (Inl DuplicateId, s)
      else (Inr (), s\<lparr>contents := (contents s)(c := contents s c @ [r])\<rparr>))"

section \<open>Fields of the records\<close>

named_theorems fields

subsection \<open>Fields of the records of \<^verbatim>\<open>src/library.js\<close>\<close>

lemma library_buckets [fields]:
  "getp library_GRPG_LIBRARY ''tags'' = Some library_TAG_DEFINITIONS"
  "bucket library_GRPG_LIBRARY ''races'' =
      [(''race-tettari'', library_race_tettari),
       (''race-bartusa'', library_race_bartusa),
       (''race-astrellidari'', library_race_astrellidari),
       (''race-wulkaran'', library_race_wulkaran),
       (''race-ignium'', library_race_ignium),
       (''race-animation'', library_race_animation),
       (''race-endari'', library_race_endari),
       (''race-feyrdrin'', library_race_feyrdrin),
       (''race-geodran'', library_race_geodran),
       (''race-omr'', library_race_omr),
       (''race-wildeman'', library_race_wildeman),
       (''race-thulhan'', library_race_thulhan),
       (''race-jackal'', library_race_jackal)]"
  "bucket library_GRPG_LIBRARY ''classes'' = []"
  "bucket library_GRPG_LIBRARY ''origins'' = []"
  "bucket library_GRPG_LIBRARY ''circles'' = []"
  "bucket library_GRPG_LIBRARY ''traits'' = []"
  "bucket library_GRPG_LIBRARY ''abilities'' =
      [(''ability-tettari-blink'', library_ability_tettari_blink),
       (''ability-tettari-stew'', library_ability_tettari_stew),
       (''ability-unstoppable-charge'', library_ability_unstoppable_charge),
       (''ability-word-of-honor'', library_ability_word_of_honor),
       (''ability-touch-of-the-cosmos'', library_ability_touch_of_the_cosmos),
       (''ability-arcane-intuition'', library_ability_arcane_intuition),
       (''ability-wulkaran-rage'', library_ability_wulkaran_rage),
       (''ability-wulkaran-senses'', library_ability_wulkaran_senses),
       (''ability-ignis-unleashed'', library_ability_ignis_unleashed),
       (''ability-fire-in-their-eye'', library_ability_fire_in_their_eye),
       (''ability-internal-spark'', library_ability_internal_spark),
       (''ability-spark-of-life'', library_ability_spark_of_life),
       (''ability-aggressive-surge'', library_ability_aggressive_surge),
       (''ability-endari-tentacles'', library_ability_endari_tentacles),
       (''ability-barkskin'', library_ability_barkskin),
       (''ability-feyrdrin-footing'', library_ability_feyrdrin_footing),
       (''ability-earth-tremor'', library_ability_earth_tremor),
       (''ability-sensing-tremor'', library_ability_sensing_tremor),
       (''ability-creeping-darkness'', library_ability_creeping_darkness),
       (''ability-omr-sight'', library_ability_omr_sight),
       (''ability-primal-roar-novice'', library_ability_primal_roar_novice),
       (''ability-wild-form'', library_ability_wild_form),
       (''ability-seed-of-paranoia'', library_ability_seed_of_paranoia),
       (''ability-thul-speech'', library_ability_thul_speech),
       (''ability-sun-ray'', library_ability_sun_ray),
       (''ability-deaths-guise'', library_ability_deaths_guise)]"
  "bucket library_GRPG_LIBRARY ''items'' = []"
  "bucket library_GRPG_LIBRARY ''professions'' = []"
  by (simp_all add: bucket_def library_GRPG_LIBRARY_def)

lemma library_race_tettari_fields [fields]:
  "getp library_race_tettari ''id'' = Some (JStr ''race-tettari'')"
  "getp library_race_tettari ''type'' = Some (JStr ''race'')"
  "getp library_race_tettari ''tags'' = Some (JArr [JStr ''type:race''])"
  "getpath library_race_tettari [''mechanics'', ''attributeMods''] =
      Some (JObj [(''agility'', JNum 2), (''willpower'', JNum 2), (''dodgeChance'', JNum 5)])"
  "getpath library_race_tettari [''mechanics'', ''innateTraits''] = Some (JArr [])"
  "getpath library_race_tettari [''mechanics'', ''innateAbilities''] =
      Some (JArr [JStr ''ability-tettari-blink'', JStr ''ability-tettari-stew''])"
  by (simp_all add: library_race_tettari_def getpath.simps)

lemma library_race_bartusa_fields [fields]:
  "getp library_race_bartusa ''id'' = Some (JStr ''race-bartusa'')"
  "getp library_race_bartusa ''type'' = Some (JStr ''race'')"
  "getp library_race_bartusa ''tags'' = Some (JArr [JStr ''type:race''])"
  "getpath library_race_bartusa [''mechanics'', ''attributeMods''] =
      Some (JObj [(''strength'', JNum 3), (''fortitude'', JNum 1), (''parryChance'', JNum 5)])"
  "getpath library_race_bartusa [''mechanics'', ''innateTraits''] = Some (JArr [])"
  "getpath library_race_bartusa [''mechanics'', ''innateAbilities''] =
      Some (JArr [JStr ''ability-unstoppable-charge'', JStr ''ability-word-of-honor''])"
  by (simp_all add: library_race_bartusa_def getpath.simps)

lemma library_race_astrellidari_fields [fields]:
  "getp library_race_astrellidari ''id'' = Some (JStr ''race-astrellidari'')"
  "getp library_race_astrellidari ''type'' = Some (JStr ''race'')"
  "getp library_race_astrellidari ''tags'' = Some (JArr [JStr ''type:race''])"
  "getpath library_race_astrellidari [''mechanics'', ''attributeMods''] =
      Some (JObj [(''willpower'', JNum 3), (''agility'', JNum 1), (''arcaneResistance'', JNum 15)])"
  "getpath library_race_astrellidari [''mechanics'', ''innateTraits''] = Some (JArr [])"
  "getpath library_race_astrellidari [''mechanics'', ''innateAbilities''] =
      Some (JArr [JStr ''ability-touch-of-the-cosmos'', JStr ''ability-arcane-intuition''])"
  by (simp_all add: library_race_astrellidari_def getpath.simps)

lemma library_race_wulkaran_fields [fields]:
  "getp library_race_wulkaran ''id'' = Some (JStr ''race-wulkaran'')"
  "getp library_race_wulkaran ''type'' = Some (JStr ''race'')"
  "getp library_race_wulkaran ''tags'' = Some (JArr [JStr ''type:race''])"
  "getpath library_race_wulkaran [''mechanics'', ''attributeMods''] =
      Some (JObj [(''strength'', JNum 2), (''fortitude'', JNum 2), (''coldResistance'', JNum 15)])"
  "getpath library_race_wulkaran [''mechanics'', ''innateTraits''] = Some (JArr [])"
  "getpath library_race_wulkaran [''mechanics'', ''innateAbilities''] =
      Some (JArr [JStr ''ability-wulkaran-rage'', JStr ''ability-wulkaran-senses''])"
  by (simp_all add: library_race_wulkaran_def getpath.simps)

lemma library_race_ignium_fields [fields]:
  "getp library_race_ignium ''id'' = Some (JStr ''race-ignium'')"
  "getp library_race_ignium ''type'' = Some (JStr ''race'')"
  "getp library_race_ignium ''tags'' = Some (JArr [JStr ''type:race''])"
  "getpath library_race_ignium [''mechanics'', ''attributeMods''] =
      Some (JObj [(''fortitude'', JNum 2), (''willpower'', JNum 2), (''fireResistance'', JNum 15)])"
  "getpath library_race_ignium [''mechanics'', ''innateTraits''] = Some (JArr [])"
  "getpath library_race_ignium [''mechanics'', ''innateAbilities''] =
      Some (JArr [JStr ''ability-ignis-unleashed'', JStr ''ability-fire-in-their-eye''])"
  by (simp_all add: library_race_ignium_def getpath.simps)

lemma library_race_animation_fields [fields]:
  "getp library_race_animation ''id'' = Some (JStr ''race-animation'')"
  "getp library_race_animation ''type'' = Some (JStr ''race'')"
  "getp library_race_animation ''tags'' = Some (JArr [JStr ''type:race''])"
  "getpath library_race_animation [''mechanics'', ''attributeMods''] =
      Some (JObj [(''fortitude'', JNum 2), (''strength'', JNum 1), (''agility'', JNum 1), (''bodilyFortification'', JNum 15)])"
  "getpath library_race_animation [''mechanics'', ''innateTraits''] = Some (JArr [])"
  "getpath library_race_animation [''mechanics'', ''innateAbilities''] =
      Some (JArr [JStr ''ability-living-touch'', JStr ''ability-spark-of-life''])"
  by (simp_all add: library_race_animation_def getpath.simps)

lemma library_race_endari_fields [fields]:
  "getp library_race_endari ''id'' = Some (JStr ''race-endari'')"
  "getp library_race_endari ''type'' = Some (JStr ''race'')"
  "getp library_race_endari ''tags'' = Some (JArr [JStr ''type:race''])"
  "getpath library_race_endari [''mechanics'', ''attributeMods''] =
      Some (JObj [(''agility'', JNum 3), (''willpower'', JNum 1), (''criticalChance'', JNum 5)])"
  "getpath library_race_endari [''mechanics'', ''innateTraits''] = Some (JArr [])"
  "getpath library_race_endari [''mechanics'', ''innateAbilities''] =
      Some (JArr [JStr ''ability-aggressive-surge'', JStr ''ability-endari-tentacles''])"
  by (simp_all add: library_race_endari_def getpath.simps)

lemma library_race_feyrdrin_fields [fields]:
  "getp library_race_feyrdrin ''id'' = Some (JStr ''race-feyrdrin'')"
  "getp library_race_feyrdrin ''type'' = Some (JStr ''race'')"
  "getp library_race_feyrdrin ''tags'' = Some (JArr [JStr ''type:race''])"
  "getpath library_race_feyrdrin [''mechanics'', ''attributeMods''] =
      Some (JObj [(''willpower'', JNum 2), (''agility'', JNum 1), (''fortitude'', JNum 1), (''natureResistance'', JNum 15)])"
  "getpath library_race_feyrdrin [''mechanics'', ''innateTraits''] = Some (JArr [])"
  "getpath library_race_feyrdrin [''mechanics'', ''innateAbilities''] =
      Some (JArr [JStr ''ability-barkskin'', JStr ''ability-feyrdrin-footing''])"
  by (simp_all add: library_race_feyrdrin_def getpath.simps)

lemma library_race_geodran_fields [fields]:
  "getp library_race_geodran ''id'' = Some (JStr ''race-geodran'')"
  "getp library_race_geodran ''type'' = Some (JStr ''race'')"
  "getp library_race_geodran ''tags'' = Some (JArr [JStr ''type:race''])"
  "getpath library_race_geodran [''mechanics'', ''attributeMods''] =
      Some (JObj [(''fortitude'', JNum 2), (''strength'', JNum 1), (''willpower'', JNum 1), (''armor'', JNum 5)])"
  "getpath library_race_geodran [''mechanics'', ''innateTraits''] = Some (JArr [])"
  "getpath library_race_geodran [''mechanics'', ''innateAbilities''] =
      Some (JArr [JStr ''ability-earth-tremor'', JStr ''ability-sensing-tremor''])"
  by (simp_all add: library_race_geodran_def getpath.simps)

lemma library_race_omr_fields [fields]:
  "getp library_race_omr ''id'' = Some (JStr ''race-omr'')"
  "getp library_race_omr ''type'' = Some (JStr ''race'')"
  "getp library_race_omr ''tags'' = Some (JArr [JStr ''type:race''])"
  "getpath library_race_omr [''mechanics'', ''attributeMods''] =
      Some (JObj [(''willpower'', JNum 2), (''agility'', JNum 1), (''strength'', JNum 1), (''shadowResistance'', JNum 15)])"
  "getpath library_race_omr [''mechanics'', ''innateTraits''] = Some (JArr [])"
  "getpath library_race_omr [''mechanics'', ''innateAbilities''] =
      Some (JArr [JStr ''ability-creeping-darkness'', JStr ''ability-omr-sight''])"
  by (simp_all add: library_race_omr_def getpath.simps)

lemma library_race_wildeman_fields [fields]:
  "getp library_race_wildeman ''id'' = Some (JStr ''race-wildeman'')"
  "getp library_race_wildeman ''type'' = Some (JStr ''race'')"
  "getp library_race_wildeman ''tags'' = Some (JArr [JStr ''type:race''])"
  "getpath library_race_wildeman [''mechanics'', ''attributeMods''] =
      Some (JObj [(''anyAttribute'', JNum 3), (''anotherAttribute'', JNum 1), (''anyOffenseOrDefense_A'', JNum 5), (''coldResistance_A'', JNum 15)])"
  "getpath library_race_wildeman [''mechanics'', ''innateTraits''] = Some (JArr [])"
  "getpath library_race_wildeman [''mechanics'', ''innateAbilities''] =
      Some (JArr [JStr ''ability-primal-roar-novice'', JStr ''ability-wild-form''])"
  by (simp_all add: library_race_wildeman_def getpath.simps)

lemma library_race_thulhan_fields [fields]:
  "getp library_race_thulhan ''id'' = Some (JStr ''race-thulhan'')"
  "getp library_race_thulhan ''type'' = Some (JStr ''race'')"
  "getp library_race_thulhan ''tags'' = Some (JArr [JStr ''type:race''])"
  "getpath library_race_thulhan [''mechanics'', ''attributeMods''] =
      Some (JObj [(''willpower'', JNum 3), (''fortitude'', JNum 1), (''wardChance'', JNum 5)])"
  "getpath library_race_thulhan [''mechanics'', ''innateTraits''] = Some (JArr [])"
  "getpath library_race_thulhan [''mechanics'', ''innateAbilities''] =
      Some (JArr [JStr ''ability-seed-of-paranoia'', JStr ''ability-thul-speech''])"
  by (simp_all add: library_race_thulhan_def getpath.simps)

lemma library_race_jackal_fields [fields]:
  "getp library_race_jackal ''id'' = Some (JStr ''race-jackal'')"
  "getp library_race_jackal ''type'' = Some (JStr ''race'')"
  "getp library_race_jackal ''tags'' = Some (JArr [JStr ''type:race''])"
  "getpath library_race_jackal [''mechanics'', ''attributeMods''] =
      Some (JObj [(''willpower'', JNum 2), (''agility'', JNum 1), (''strength'', JNum 1), (''lightResistance'', JNum 15)])"
  "getpath library_race_jackal [''mechanics'', ''innateTraits''] = Some (JArr [])"
  "getpath library_race_jackal [''mechanics'', ''innateAbilities''] = Some (JArr [JStr ''ability-sun-ray'', JStr ''ability-deaths-guise''])"
  by (simp_all add: library_race_jackal_def getpath.simps)

lemma library_ability_tettari_blink_fields [fields]:
  "getp library_ability_tettari_blink ''id'' = Some (JStr ''ability-tettari-blink'')"
  "getp library_ability_tettari_blink ''type'' = Some (JStr ''ability'')"
  "getp library_ability_tettari_blink ''tags'' =
      Some (JArr [JStr ''type:ability'', JStr ''category:combat'', JStr ''source:race-tettari''])"
  "getp library_ability_tettari_blink ''grantedBy'' =
      Some (JObj [(''type'', JStr ''race''), (''id'', JStr ''race-tettari'')])"
  by (simp_all add: library_ability_tettari_blink_def getpath.simps)

lemma library_ability_tettari_stew_fields [fields]:
  "getp library_ability_tettari_stew ''id'' = Some (JStr ''ability-tettari-stew'')"
  "getp library_ability_tettari_stew ''type'' = Some (JStr ''ability'')"
  "getp library_ability_tettari_stew ''tags'' =
      Some (JArr [JStr ''type:ability'', JStr ''category:adventuring'', JStr ''source:race-tettari''])"
  "getp library_ability_tettari_stew ''grantedBy'' =
      Some (JObj [(''type'', JStr ''race''), (''id'', JStr ''race-tettari'')])"
  by (simp_all add: library_ability_tettari_stew_def getpath.simps)

lemma library_ability_unstoppable_charge_fields [fields]:
  "getp library_ability_unstoppable_charge ''id'' = Some (JStr ''ability-unstoppable-charge'')"
  "getp library_ability_unstoppable_charge ''type'' = Some (JStr ''ability'')"
  "getp library_ability_unstoppable_charge ''tags'' =
      Some (JArr [JStr ''type:ability'', JStr ''category:combat'', JStr ''source:race-bartusa''])"
  "getp library_ability_unstoppable_charge ''grantedBy'' =
      Some (JObj [(''type'', JStr ''race''), (''id'', JStr ''race-bartusa'')])"
  by (simp_all add: library_ability_unstoppable_charge_def getpath.simps)

lemma library_ability_word_of_honor_fields [fields]:
  "getp library_ability_word_of_honor ''id'' = Some (JStr ''ability-word-of-honor'')"
  "getp library_ability_word_of_honor ''type'' = Some (JStr ''ability'')"
  "getp library_ability_word_of_honor ''tags'' =
      Some (JArr [JStr ''type:ability'', JStr ''category:adventuring'', JStr ''source:race-bartusa''])"
  "getp library_ability_word_of_honor ''grantedBy'' =
      Some (JObj [(''type'', JStr ''race''), (''id'', JStr ''race-bartusa'')])"
  by (simp_all add: library_ability_word_of_honor_def getpath.simps)

lemma library_ability_touch_of_the_cosmos_fields [fields]:
  "getp library_ability_touch_of_the_cosmos ''id'' = Some (JStr ''ability-touch-of-the-cosmos'')"
  "getp library_ability_touch_of_the_cosmos ''type'' = Some (JStr ''ability'')"
  "getp library_ability_touch_of_the_cosmos ''tags'' =
      Some (JArr [JStr ''type:ability'', JStr ''category:combat'', JStr ''source:race-astrellidari''])"
  "getp library_ability_touch_of_the_cosmos ''grantedBy'' =
      Some (JObj [(''type'', JStr ''race''), (''id'', JStr ''race-astrellidari'')])"
  by (simp_all add: library_ability_touch_of_the_cosmos_def getpath.simps)

lemma library_ability_arcane_intuition_fields [fields]:
  "getp library_ability_arcane_intuition ''id'' = Some (JStr ''ability-arcane-intuition'')"
  "getp library_ability_arcane_intuition ''type'' = Some (JStr ''ability'')"
  "getp library_ability_arcane_intuition ''tags'' =
      Some (JArr [JStr ''type:ability'', JStr ''category:adventuring'', JStr ''source:race-astrellidari''])"
  "getp library_ability_arcane_intuition ''grantedBy'' =
      Some (JObj [(''type'', JStr ''race''), (''id'', JStr ''race-astrellidari'')])"
  by (simp_all add: library_ability_arcane_intuition_def getpath.simps)

lemma library_ability_wulkaran_rage_fields [fields]:
  "getp library_ability_wulkaran_rage ''id'' = Some (JStr ''ability-wulkaran-rage'')"
  "getp library_ability_wulkaran_rage ''type'' = Some (JStr ''ability'')"
  "getp library_ability_wulkaran_rage ''tags'' =
      Some (JArr [JStr ''type:ability'', JStr ''category:combat'', JStr ''source:race-wulkaran''])"
  "getp library_ability_wulkaran_rage ''grantedBy'' =
      Some (JObj [(''type'', JStr ''race''), (''id'', JStr ''race-wulkaran'')])"
  by (simp_all add: library_ability_wulkaran_rage_def getpath.simps)

lemma library_ability_wulkaran_senses_fields [fields]:
  "getp library_ability_wulkaran_senses ''id'' = Some (JStr ''ability-wulkaran-senses'')"
  "getp library_ability_wulkaran_senses ''type'' = Some (JStr ''ability'')"
  "getp library_ability_wulkaran_senses ''tags'' =
      Some (JArr [JStr ''type:ability'', JStr ''category:adventuring'', JStr ''source:race-wulkaran''])"
  "getp library_ability_wulkaran_senses ''grantedBy'' =
      Some (JObj [(''type'', JStr ''race''), (''id'', JStr ''race-wulkaran'')])"
  by (simp_all add: library_ability_wulkaran_senses_def getpath.simps)

lemma library_ability_ignis_unleashed_fields [fields]:
  "getp library_ability_ignis_unleashed ''id'' = Some (JStr ''ability-ignis-unleashed'')"
  "getp library_ability_ignis_unleashed ''type'' = Some (JStr ''ability'')"
  "getp library_ability_ignis_unleashed ''tags'' =
      Some (JArr [JStr ''type:ability'', JStr ''category:combat'', JStr ''source:race-ignium''])"
  "getp library_ability_ignis_unleashed ''grantedBy'' =
      Some (JObj [(''type'', JStr ''race''), (''id'', JStr ''race-ignium'')])"
  by (simp_all add: library_ability_ignis_unleashed_def getpath.simps)

lemma library_ability_fire_in_their_eye_fields [fields]:
  "getp library_ability_fire_in_their_eye ''id'' = Some (JStr ''ability-fire-in-their-eye'')"
  "getp library_ability_fire_in_their_eye ''type'' = Some (JStr ''ability'')"
  "getp library_ability_fire_in_their_eye ''tags'' =
      Some (JArr [JStr ''type:ability'', JStr ''category:adventuring'', JStr ''source:race-ignium''])"
  "getp library_ability_fire_in_their_eye ''grantedBy'' =
      Some (JObj [(''type'', JStr ''race''), (''id'', JStr ''race-ignium'')])"
  by (simp_all add: library_ability_fire_in_their_eye_def getpath.simps)

lemma library_ability_internal_spark_fields [fields]:
  "getp library_ability_internal_spark ''id'' = Some (JStr ''ability-internal-spark'')"
  "getp library_ability_internal_spark ''type'' = Some (JStr ''ability'')"
  "getp library_ability_internal_spark ''tags'' =
      Some (JArr [JStr ''type:ability'', JStr ''category:combat'', JStr ''source:race-animation''])"
  "getp library_ability_internal_spark ''grantedBy'' =
      Some (JObj [(''type'', JStr ''race''), (''id'', JStr ''race-animation'')])"
  by (simp_all add: library_ability_internal_spark_def getpath.simps)

lemma library_ability_spark_of_life_fields [fields]:
  "getp library_ability_spark_of_life ''id'' = Some (JStr ''ability-spark-of-life'')"
  "getp library_ability_spark_of_life ''type'' = Some (JStr ''ability'')"
  "getp library_ability_spark_of_life ''tags'' =
      Some (JArr [JStr ''type:ability'', JStr ''category:adventuring'', JStr ''source:race-animation''])"
  "getp library_ability_spark_of_life ''grantedBy'' =
      Some (JObj [(''type'', JStr ''race''), (''id'', JStr ''race-animation'')])"
  by (simp_all add: library_ability_spark_of_life_def getpath.simps)

lemma library_ability_aggressive_surge_fields [fields]:
  "getp library_ability_aggressive_surge ''id'' = Some (JStr ''ability-aggressive-surge'')"
  "getp library_ability_aggressive_surge ''type'' = Some (JStr ''ability'')"
  "getp library_ability_aggressive_surge ''tags'' =
      Some (JArr [JStr ''type:ability'', JStr ''category:combat'', JStr ''source:race-endari''])"
  "getp library_ability_aggressive_surge ''grantedBy'' =
      Some (JObj [(''type'', JStr ''race''), (''id'', JStr ''race-endari'')])"
  by (simp_all add: library_ability_aggressive_surge_def getpath.simps)

lemma library_ability_endari_tentacles_fields [fields]:
  "getp library_ability_endari_tentacles ''id'' = Some (JStr ''ability-endari-tentacles'')"
  "getp library_ability_endari_tentacles ''type'' = Some (JStr ''ability'')"
  "getp library_ability_endari_tentacles ''tags'' =
      Some (JArr [JStr ''type:ability'', JStr ''category:adventuring'', JStr ''source:race-endari''])"
  "getp library_ability_endari_tentacles ''grantedBy'' =
      Some (JObj [(''type'', JStr ''race''), (''id'', JStr ''race-endari'')])"
  by (simp_all add: library_ability_endari_tentacles_def getpath.simps)

lemma library_ability_barkskin_fields [fields]:
  "getp library_ability_barkskin ''id'' = Some (JStr ''ability-barkskin'')"
  "getp library_ability_barkskin ''type'' = Some (JStr ''ability'')"
  "getp library_ability_barkskin ''tags'' =
      Some (JArr [JStr ''type:ability'', JStr ''category:combat'', JStr ''source:race-feyrdrin''])"
  "getp library_ability_barkskin ''grantedBy'' =
      Some (JObj [(''type'', JStr ''race''), (''id'', JStr ''race-feyrdrin'')])"
  by (simp_all add: library_ability_barkskin_def getpath.simps)

lemma library_ability_feyrdrin_footing_fields [fields]:
  "getp library_ability_feyrdrin_footing ''id'' = Some (JStr ''ability-feyrdrin-footing'')"
  "getp library_ability_feyrdrin_footing ''type'' = Some (JStr ''ability'')"
  "getp library_ability_feyrdrin_footing ''tags'' =
      Some (JArr [JStr ''type:ability'', JStr ''category:adventuring'', JStr ''source:race-feyrdrin''])"
  "getp library_ability_feyrdrin_footing ''grantedBy'' =
      Some (JObj [(''type'', JStr ''race''), (''id'', JStr ''race-feyrdrin'')])"
  by (simp_all add: library_ability_feyrdrin_footing_def getpath.simps)

lemma library_ability_earth_tremor_fields [fields]:
  "getp library_ability_earth_tremor ''id'' = Some (JStr ''ability-earth-tremor'')"
  "getp library_ability_earth_tremor ''type'' = Some (JStr ''ability'')"
  "getp library_ability_earth_tremor ''tags'' =
      Some (JArr [JStr ''type:ability'', JStr ''category:combat'', JStr ''source:race-geodran''])"
  "getp library_ability_earth_tremor ''grantedBy'' =
      Some (JObj [(''type'', JStr ''race''), (''id'', JStr ''race-geodran'')])"
  by (simp_all add: library_ability_earth_tremor_def getpath.simps)

lemma library_ability_sensing_tremor_fields [fields]:
  "getp library_ability_sensing_tremor ''id'' = Some (JStr ''ability-sensing-tremor'')"
  "getp library_ability_sensing_tremor ''type'' = Some (JStr ''ability'')"
  "getp library_ability_sensing_tremor ''tags'' =
      Some (JArr [JStr ''type:ability'', JStr ''category:adventuring'', JStr ''source:race-geodran''])"
  "getp library_ability_sensing_tremor ''grantedBy'' =
      Some (JObj [(''type'', JStr ''race''), (''id'', JStr ''race-geodran'')])"
  by (simp_all add: library_ability_sensing_tremor_def getpath.simps)

lemma library_ability_creeping_darkness_fields [fields]:
  "getp library_ability_creeping_darkness ''id'' = Some (JStr ''ability-creeping-darkness'')"
  "getp library_ability_creeping_darkness ''type'' = Some (JStr ''ability'')"
  "getp library_ability_creeping_darkness ''tags'' =
      Some (JArr [JStr ''type:ability'', JStr ''category:combat'', JStr ''source:race-omr''])"
  "getp library_ability_creeping_darkness ''grantedBy'' = Some (JObj [(''type'', JStr ''race''), (''id'', JStr ''race-omr'')])"
  by (simp_all add: library_ability_creeping_darkness_def getpath.simps)

lemma library_ability_omr_sight_fields [fields]:
  "getp library_ability_omr_sight ''id'' = Some (JStr ''ability-omr-sight'')"
  "getp library_ability_omr_sight ''type'' = Some (JStr ''ability'')"
  "getp library_ability_omr_sight ''tags'' =
      Some (JArr [JStr ''type:ability'', JStr ''category:adventuring'', JStr ''source:race-omr''])"
  "getp library_ability_omr_sight ''grantedBy'' = Some (JObj [(''type'', JStr ''race''), (''id'', JStr ''race-omr'')])"
  by (simp_all add: library_ability_omr_sight_def getpath.simps)

lemma library_ability_primal_roar_novice_fields [fields]:
  "getp library_ability_primal_roar_novice ''id'' = Some (JStr ''ability-primal-roar-novice'')"
  "getp library_ability_primal_roar_novice ''type'' = Some (JStr ''ability'')"
  "getp library_ability_primal_roar_novice ''tags'' =
      Some (JArr [JStr ''type:ability'', JStr ''category:combat'', JStr ''source:race-wildeman''])"
  "getp library_ability_primal_roar_novice ''grantedBy'' =
      Some (JObj [(''type'', JStr ''race''), (''id'', JStr ''race-wildeman'')])"
  by (simp_all add: library_ability_primal_roar_novice_def getpath.simps)

lemma library_ability_wild_form_fields [fields]:
  "getp library_ability_wild_form ''id'' = Some (JStr ''ability-wild-form'')"
  "getp library_ability_wild_form ''type'' = Some (JStr ''ability'')"
  "getp library_ability_wild_form ''tags'' =
      Some (JArr [JStr ''type:ability'', JStr ''category:adventuring'', JStr ''source:race-wildeman''])"
  "getp library_ability_wild_form ''grantedBy'' =
      Some (JObj [(''type'', JStr ''race''), (''id'', JStr ''race-wildeman'')])"
  by (simp_all add: library_ability_wild_form_def getpath.simps)

lemma library_ability_seed_of_paranoia_fields [fields]:
  "getp library_ability_seed_of_paranoia ''id'' = Some (JStr ''ability-seed-of-paranoia'')"
  "getp library_ability_seed_of_paranoia ''type'' = Some (JStr ''ability'')"
  "getp library_ability_seed_of_paranoia ''tags'' =
      Some (JArr [JStr ''type:ability'', JStr ''category:combat'', JStr ''source:race-thulhan''])"
  "getp library_ability_seed_of_paranoia ''grantedBy'' =
      Some (JObj [(''type'', JStr ''race''), (''id'', JStr ''race-thulhan'')])"
  by (simp_all add: library_ability_seed_of_paranoia_def getpath.simps)

lemma library_ability_thul_speech_fields [fields]:
  "getp library_ability_thul_speech ''id'' = Some (JStr ''ability-thul-speech'')"
  "getp library_ability_thul_speech ''type'' = Some (JStr ''ability'')"
  "getp library_ability_thul_speech ''tags'' =
      Some (JArr [JStr ''type:ability'', JStr ''category:adventuring'', JStr ''source:race-thulhan''])"
  "getp library_ability_thul_speech ''grantedBy'' =
      Some (JObj [(''type'', JStr ''race''), (''id'', JStr ''race-thulhan'')])"
  by (simp_all add: library_ability_thul_speech_def getpath.simps)

lemma library_ability_sun_ray_fields [fields]:
  "getp library_ability_sun_ray ''id'' = Some (JStr ''ability-sun-ray'')"
  "getp library_ability_sun_ray ''type'' = Some (JStr ''ability'')"
  "getp library_ability_sun_ray ''tags'' =
      Some (JArr [JStr ''type:ability'', JStr ''category:combat'', JStr ''source:race-jackal''])"
  "getp library_ability_sun_ray ''grantedBy'' =
      Some (JObj [(''type'', JStr ''race''), (''id'', JStr ''race-jackal'')])"
  by (simp_all add: library_ability_sun_ray_def getpath.simps)

lemma library_ability_deaths_guise_fields [fields]:
  "getp library_ability_deaths_guise ''id'' = Some (JStr ''ability-deaths-guise'')"
  "getp library_ability_deaths_guise ''type'' = Some (JStr ''ability'')"
  "getp library_ability_deaths_guise ''tags'' =
      Some (JArr [JStr ''type:ability'', JStr ''category:adventuring'', JStr ''source:race-jackal''])"
  "getp library_ability_deaths_guise ''grantedBy'' =
      Some (JObj [(''type'', JStr ''race''), (''id'', JStr ''race-jackal'')])"
  by (simp_all add: library_ability_deaths_guise_def getpath.simps)

subsection \<open>Fields of the records of \<^verbatim>\<open>src/GRPGLibrary0.0.1.js\<close>\<close>

lemma v001_buckets [fields]:
  "getp v001_GRPG_LIBRARY ''tags'' = Some v001_TAG_DEFINITIONS"
  "bucket v001_GRPG_LIBRARY ''races'' =
      [(''race-tettari'', v001_race_tettari)]"
  "bucket v001_GRPG_LIBRARY ''classes'' =
      [(''class-warden'', v001_class_warden)]"
  "bucket v001_GRPG_LIBRARY ''origins'' = []"
  "bucket v001_GRPG_LIBRARY ''circles'' = []"
  "bucket v001_GRPG_LIBRARY ''traits'' =
      [(''trait-tettari-survivor'', v001_trait_tettari_survivor)]"
  "bucket v001_GRPG_LIBRARY ''abilities'' =
      [(''ability-mark-prey'', v001_ability_mark_prey)]"
  "bucket v001_GRPG_LIBRARY ''items'' = []"
  "bucket v001_GRPG_LIBRARY ''professions'' = []"
  by (simp_all add: bucket_def v001_GRPG_LIBRARY_def)

lemma v001_race_tettari_fields [fields]:
  "getp v001_race_tettari ''id'' = Some (JStr ''race-tettari'')"
  "getp v001_race_tettari ''type'' = Some (JStr ''race'')"
  "getp v001_race_tettari ''tags'' =
      Some (JArr [JStr ''type:race'', JStr ''realm:surface'', JStr ''role:skirmisher'', JStr ''status:core''])"
  "getpath v001_race_tettari [''mechanics'', ''attributeMods''] = Some (JObj [(''agility'', JNum 2), (''willpower'', JNum 1)])"
  "getpath v001_race_tettari [''mechanics'', ''innateTraits''] = Some (JArr [JStr ''trait-tettari-survivor''])"
  "getpath v001_race_tettari [''mechanics'', ''innateAbilities''] = Some (JArr [])"
  by (simp_all add: v001_race_tettari_def getpath.simps)

lemma v001_class_warden_fields [fields]:
  "getp v001_class_warden ''id'' = Some (JStr ''class-warden'')"
  "getp v001_class_warden ''type'' = Some (JStr ''class'')"
  "getp v001_class_warden ''tags'' =
      Some (JArr [JStr ''type:class'', JStr ''faction:wardens'', JStr ''role:martial'', JStr ''role:utility'', JStr ''status:core''])"
  "getpath v001_class_warden [''mechanics'', ''startingTraits''] = Some (JArr [JStr ''trait-hunter-sense''])"
  "getpath v001_class_warden [''mechanics'', ''startingAbilities''] = Some (JArr [JStr ''ability-mark-prey''])"
  by (simp_all add: v001_class_warden_def getpath.simps)

lemma v001_trait_tettari_survivor_fields [fields]:
  "getp v001_trait_tettari_survivor ''id'' = Some (JStr ''trait-tettari-survivor'')"
  "getp v001_trait_tettari_survivor ''type'' = Some (JStr ''trait'')"
  "getp v001_trait_tettari_survivor ''tags'' =
      Some (JArr [JStr ''type:trait'', JStr ''tier:basic'', JStr ''realm:surface'', JStr ''status:core''])"
  by (simp_all add: v001_trait_tettari_survivor_def getpath.simps)

lemma v001_ability_mark_prey_fields [fields]:
  "getp v001_ability_mark_prey ''id'' = Some (JStr ''ability-mark-prey'')"
  "getp v001_ability_mark_prey ''type'' = Some (JStr ''ability'')"
  "getp v001_ability_mark_prey ''tags'' =
      Some (JArr [JStr ''type:ability'', JStr ''role:skirmisher'', JStr ''role:martial'', JStr ''tier:basic'', JStr ''status:core''])"
  "getp v001_ability_mark_prey ''grantedBy'' = None"
  by (simp_all add: v001_ability_mark_prey_def getpath.simps)

subsection \<open>Fields of the records of \<^verbatim>\<open>src/unnamed/part_000\<close>\<close>

lemma part000_buckets [fields]:
  "getp part000_GRPG_LIBRARY ''tags'' = Some part000_TAG_DEFINITIONS"
  "bucket part000_GRPG_LIBRARY ''races'' =
      [(''race-tettari'', part000_race_tettari)]"
  "bucket part000_GRPG_LIBRARY ''classes'' =
      [(''class-warden'', part000_class_warden)]"
  "bucket part000_GRPG_LIBRARY ''origins'' = []"
  "bucket part000_GRPG_LIBRARY ''circles'' = []"
  "bucket part000_GRPG_LIBRARY ''traits'' =
      [(''trait-tettari-survivor'', part000_trait_tettari_survivor)]"
  "bucket part000_GRPG_LIBRARY ''abilities'' =
      [(''ability-mark-prey'', part000_ability_mark_prey)]"
  "bucket part000_GRPG_LIBRARY ''items'' = []"
  "bucket part000_GRPG_LIBRARY ''professions'' = []"
  by (simp_all add: bucket_def part000_GRPG_LIBRARY_def)

lemma part000_race_tettari_fields [fields]:
  "getp part000_race_tettari ''id'' = Some (JStr ''race-tettari'')"
  "getp part000_race_tettari ''type'' = Some (JStr ''race'')"
  "getp part000_race_tettari ''tags'' =
      Some (JArr [JStr ''type:race'', JStr ''realm:surface'', JStr ''role:skirmisher'', JStr ''status:core''])"
  "getpath part000_race_tettari [''mechanics'', ''attributeMods''] = Some (JObj [(''agility'', JNum 2), (''willpower'', JNum 1)])"
  "getpath part000_race_tettari [''mechanics'', ''innateTraits''] = Some (JArr [JStr ''trait-tettari-survivor''])"
  "getpath part000_race_tettari [''mechanics'', ''innateAbilities''] = Some (JArr [])"
  by (simp_all add: part000_race_tettari_def getpath.simps)

lemma part000_class_warden_fields [fields]:
  "getp part000_class_warden ''id'' = Some (JStr ''class-warden'')"
  "getp part000_class_warden ''type'' = Some (JStr ''class'')"
  "getp part000_class_warden ''tags'' =
      Some (JArr [JStr ''type:class'', JStr ''faction:wardens'', JStr ''role:martial'', JStr ''role:utility'', JStr ''status:core''])"
  "getpath part000_class_warden [''mechanics'', ''startingTraits''] = Some (JArr [JStr ''trait-hunter-sense''])"
  "getpath part000_class_warden [''mechanics'', ''startingAbilities''] = Some (JArr [JStr ''ability-mark-prey''])"
  by (simp_all add: part000_class_warden_def getpath.simps)

lemma part000_trait_tettari_survivor_fields [fields]:
  "getp part000_trait_tettari_survivor ''id'' = Some (JStr ''trait-tettari-survivor'')"
  "getp part000_trait_tettari_survivor ''type'' = Some (JStr ''trait'')"
  "getp part000_trait_tettari_survivor ''tags'' =
      Some (JArr [JStr ''type:trait'', JStr ''tier:basic'', JStr ''realm:surface'', JStr ''status:core''])"
  by (simp_all add: part000_trait_tettari_survivor_def getpath.simps)

lemma part000_ability_mark_prey_fields [fields]:
  "getp part000_ability_mark_prey ''id'' = Some (JStr ''ability-mark-prey'')"
  "getp part000_ability_mark_prey ''type'' = Some (JStr ''ability'')"
  "getp part000_ability_mark_prey ''tags'' =
      Some (JArr [JStr ''type:ability'', JStr ''role:skirmisher'', JStr ''role:martial'', JStr ''tier:basic'', JStr ''status:core''])"
  "getp part000_ability_mark_prey ''grantedBy'' = None"
  by (simp_all add: part000_ability_mark_prey_def getpath.simps)

subsection \<open>Keys of the object literals\<close>

lemma library_distinct_keys:
  "distinct_keys library_GRPG_LIBRARY"
  by (simp add: library_TAG_DEFINITIONS_def library_GRPG_LIBRARY_def library_race_tettari_def
      library_race_bartusa_def library_race_astrellidari_def library_race_wulkaran_def
      library_race_ignium_def library_race_animation_def library_race_endari_def
      library_race_feyrdrin_def library_race_geodran_def library_race_omr_def
      library_race_wildeman_def library_race_thulhan_def library_race_jackal_def
      library_ability_tettari_blink_def library_ability_tettari_stew_def
      library_ability_unstoppable_charge_def library_ability_word_of_honor_def
      library_ability_touch_of_the_cosmos_def library_ability_arcane_intuition_def
      library_ability_wulkaran_rage_def library_ability_wulkaran_senses_def
      library_ability_ignis_unleashed_def library_ability_fire_in_their_eye_def
      library_ability_internal_spark_def library_ability_spark_of_life_def
      library_ability_aggressive_surge_def library_ability_endari_tentacles_def
      library_ability_barkskin_def library_ability_feyrdrin_footing_def
      library_ability_earth_tremor_def library_ability_sensing_tremor_def
      library_ability_creeping_darkness_def library_ability_omr_sight_def
      library_ability_primal_roar_novice_def library_ability_wild_form_def
      library_ability_seed_of_paranoia_def library_ability_thul_speech_def
      library_ability_sun_ray_def library_ability_deaths_guise_def)

lemma v001_distinct_keys:
  "distinct_keys v001_GRPG_LIBRARY"
  by (simp add: v001_TAG_DEFINITIONS_def v001_GRPG_LIBRARY_def v001_race_tettari_def
      v001_class_warden_def v001_trait_tettari_survivor_def v001_ability_mark_prey_def)

lemma part000_distinct_keys:
  "distinct_keys part000_GRPG_LIBRARY"
  by (simp add: part000_TAG_DEFINITIONS_def part000_GRPG_LIBRARY_def part000_race_tettari_def
      part000_class_warden_def part000_trait_tettari_survivor_def
      part000_ability_mark_prey_def)

section \<open>Properties of the data\<close>

lemmas unf = datasets_def categories_def bucket_types_def

lemma datasets_mem:
  "library_GRPG_LIBRARY \<in> set datasets"
  "v001_GRPG_LIBRARY \<in> set datasets"
  "part000_GRPG_LIBRARY \<in> set datasets"
  by (simp_all add: datasets_def)

lemma categories_mem:
  "''races'' \<in> set categories"
  "''classes'' \<in> set categories"
  "''traits'' \<in> set categories"
  "''abilities'' \<in> set categories"
  by (simp_all add: categories_def bucket_types_def)

subsection \<open>Reference closure\<close>

text \<open>
  C1. Every identifier a record holds in a reference field resolves to a record of the
  expected bucket. The data breaks this: \<^verbatim>\<open>race-animation\<close> of
  \<^verbatim>\<open>src/library.js\<close> lists the innate ability \<^verbatim>\<open>ability-living-touch\<close>, and no
  ability has that key (the ability named ``Living Touch'' is stored as
  \<^verbatim>\<open>ability-internal-spark\<close>); \<^verbatim>\<open>class-warden\<close> of the two other files lists the
  starting trait \<^verbatim>\<open>trait-hunter-sense\<close>, and no trait has that key. These are the only
  references that do not resolve.
\<close>

theorem dangling_references:
  "dangling library_GRPG_LIBRARY =
     [(''races'', ''race-animation'', Some ''abilities'', ''ability-living-touch'')] \<and>
   dangling v001_GRPG_LIBRARY =
     [(''classes'', ''class-warden'', Some ''traits'', ''trait-hunter-sense'')] \<and>
   dangling part000_GRPG_LIBRARY =
     [(''classes'', ''class-warden'', Some ''traits'', ''trait-hunter-sense'')]"
  apply (simp add: dangling_def unf fields)
  apply (simp add: id_refs_def granted_by_def bucket_of_type_def resolves_def unf fields)
  done

subsection \<open>Tag closure\<close>

lemma library_tag_keys:
  "tag_keys library_GRPG_LIBRARY =
     [''type:race'', ''type:class'', ''type:circle'', ''type:origin'', ''type:trait'',
      ''type:ability'', ''type:item'', ''type:profession'', ''type:condition'']"
  by (simp add: tag_keys_def tag_dictionary_def library_buckets library_TAG_DEFINITIONS_def)

lemma v001_tag_keys:
  "tag_keys v001_GRPG_LIBRARY =
     [''type:race'', ''type:class'', ''type:origin'', ''type:circle'', ''type:trait'',
      ''type:ability'', ''type:item'', ''type:profession'', ''faction:wardens'',
      ''faction:underground'', ''faction:neutral'', ''realm:surface'',
      ''realm:underground'', ''realm:astral'', ''role:martial'', ''role:skirmisher'',
      ''role:caster'', ''role:support'', ''role:utility'', ''tier:basic'',
      ''tier:advanced'', ''tier:elite'', ''status:core'', ''status:playtest'',
      ''source:core-rulebook'', ''source:supplement:wardens'']"
  by (simp add: tag_keys_def tag_dictionary_def v001_buckets v001_TAG_DEFINITIONS_def)

lemma part000_tag_keys:
  "tag_keys part000_GRPG_LIBRARY =
     [''type:race'', ''type:class'', ''type:origin'', ''type:circle'', ''type:trait'',
      ''type:ability'', ''type:item'', ''type:profession'', ''faction:wardens'',
      ''faction:underground'', ''faction:neutral'', ''realm:surface'',
      ''realm:underground'', ''realm:astral'', ''role:martial'', ''role:skirmisher'',
      ''role:caster'', ''role:support'', ''role:utility'', ''tier:basic'',
      ''tier:advanced'', ''tier:elite'', ''status:core'', ''status:playtest'',
      ''source:core-rulebook'', ''source:supplement:wardens'']"
  by (simp add: tag_keys_def tag_dictionary_def part000_buckets part000_TAG_DEFINITIONS_def)

text \<open>
  C2, as stated: every tag of every record is a key of the tag dictionary of its dataset.
  It fails in \<^verbatim>\<open>src/library.js\<close>, whose dictionary holds the \<^verbatim>\<open>type:\<close> tags
  only: \<^verbatim>\<open>ability-tettari-blink\<close> carries \<^verbatim>\<open>category:combat\<close>.
\<close>

theorem tag_closure_counterexample:
  "(''ability-tettari-blink'', library_ability_tettari_blink)
     \<in> set (bucket library_GRPG_LIBRARY ''abilities'') \<and>
   ''category:combat'' \<in> set (rec_tags library_ability_tettari_blink) \<and>
   ''category:combat'' \<notin> set (tag_keys library_GRPG_LIBRARY)"
  by (simp add: rec_tags_def fields library_tag_keys)

text \<open>
  C2, amended: in the two other datasets every tag of every record is a key of the tag
  dictionary; in \<^verbatim>\<open>src/library.js\<close> every tag of every record is a key of the tag
  dictionary or is a \<^verbatim>\<open>category:\<close> or \<^verbatim>\<open>source:\<close> tag of an ability.
\<close>

theorem tag_closure_amended:
  "(\<forall>lib \<in> set [v001_GRPG_LIBRARY, part000_GRPG_LIBRARY]. \<forall>b \<in> set categories.
      \<forall>(k, r) \<in> set (bucket lib b). \<forall>t \<in> set (rec_tags r). t \<in> set (tag_keys lib)) \<and>
   (\<forall>b \<in> set categories. \<forall>(k, r) \<in> set (bucket library_GRPG_LIBRARY b).
      \<forall>t \<in> set (rec_tags r).
        t \<in> set (tag_keys library_GRPG_LIBRARY) \<or>
        b = ''abilities'' \<and> (starts_with t ''category:'' \<or> starts_with t ''source:''))"
  by (simp add: unf fields rec_tags_def starts_with_def
      library_tag_keys v001_tag_keys part000_tag_keys)

theorem tag_closure_amended_witness:
  "''realm:surface'' \<in> set (rec_tags v001_race_tettari) \<and>
   ''realm:surface'' \<in> set (tag_keys v001_GRPG_LIBRARY) \<and>
   ''source:race-tettari'' \<in> set (rec_tags library_ability_tettari_blink) \<and>
   ''source:race-tettari'' \<notin> set (tag_keys library_GRPG_LIBRARY) \<and>
   starts_with ''source:race-tettari'' ''source:''"
proof -
  have v: "v001_GRPG_LIBRARY \<in> set [v001_GRPG_LIBRARY, part000_GRPG_LIBRARY]"
    by simp
  have r: "(''race-tettari'', v001_race_tettari) \<in> set (bucket v001_GRPG_LIBRARY ''races'')"
    by (simp add: fields)
  have t: "''realm:surface'' \<in> set (rec_tags v001_race_tettari)"
    by (simp add: rec_tags_def fields)
  have a: "(''ability-tettari-blink'', library_ability_tettari_blink)
      \<in> set (bucket library_GRPG_LIBRARY ''abilities'')"
    by (simp add: fields)
  have s: "''source:race-tettari'' \<in> set (rec_tags library_ability_tettari_blink)"
    by (simp add: rec_tags_def fields)
  have n: "''source:race-tettari'' \<notin> set (tag_keys library_GRPG_LIBRARY)"
    by (simp add: library_tag_keys)
  from tag_closure_amended v categories_mem(1) r t
  have 1: "''realm:surface'' \<in> set (tag_keys v001_GRPG_LIBRARY)"
    by fastforce
  from tag_closure_amended categories_mem(4) a s n
  have 2: "starts_with ''source:race-tettari'' ''category:'' \<or>
      starts_with ''source:race-tettari'' ''source:''"
    by fastforce
  have "\<not> starts_with ''source:race-tettari'' ''category:''"
    by (simp add: starts_with_def)
  with 1 2 t s n show ?thesis
    by blast
qed

subsection \<open>Back-reference symmetry\<close>

text \<open>
  C3. Every ability granted by a race is listed in that race's innate abilities. The data
  breaks this once: \<^verbatim>\<open>ability-internal-spark\<close> of \<^verbatim>\<open>src/library.js\<close> is granted by
  \<^verbatim>\<open>race-animation\<close>, which exists and lists \<^verbatim>\<open>ability-living-touch\<close> and
  \<^verbatim>\<open>ability-spark-of-life\<close>.
\<close>

theorem asymmetric_back_reference:
  "asymmetric library_GRPG_LIBRARY = [(''ability-internal-spark'', ''race-animation'')] \<and>
   granted_by library_ability_internal_spark = Some (''race'', ''race-animation'') \<and>
   map_of (bucket library_GRPG_LIBRARY ''races'') ''race-animation'' = Some library_race_animation \<and>
   str_elems (getpath library_race_animation [''mechanics'', ''innateAbilities'']) =
     [''ability-living-touch'', ''ability-spark-of-life'']"
  apply (simp add: asymmetric_def fields)
  apply (simp add: granted_by_def lists_ability_def fields)
  done

subsection \<open>Type-tag agreement\<close>

text \<open>
  C4. Every record of every category bucket of each dataset has the \<^verbatim>\<open>type\<close> of its
  bucket, and its tags hold \<^verbatim>\<open>type:\<close> followed by that type.
\<close>

theorem type_tag_agreement:
  "\<forall>lib \<in> set datasets. \<forall>(b, ty) \<in> set bucket_types. \<forall>(k, r) \<in> set (bucket lib b).
     getp r ''type'' = Some (JStr ty) \<and> ''type:'' @ ty \<in> set (rec_tags r)"
  by (simp add: unf rec_tags_def fields)

theorem type_tag_agreement_witness:
  "(''classes'', ''class'') \<in> set bucket_types \<and>
   (''class-warden'', v001_class_warden) \<in> set (bucket v001_GRPG_LIBRARY ''classes'') \<and>
   getp v001_class_warden ''type'' = Some (JStr ''class'') \<and>
   ''type:class'' \<in> set (rec_tags v001_class_warden)"
proof -
  have b: "(''classes'', ''class'') \<in> set bucket_types"
    by (simp add: bucket_types_def)
  have r: "(''class-warden'', v001_class_warden) \<in> set (bucket v001_GRPG_LIBRARY ''classes'')"
    by (simp add: fields)
  from type_tag_agreement datasets_mem(2) b r
  have "getp v001_class_warden ''type'' = Some (JStr ''class'') \<and>
      ''type:'' @ ''class'' \<in> set (rec_tags v001_class_warden)"
    by fastforce
  with b r show ?thesis
    by simp
qed

subsection \<open>Id uniqueness and pattern\<close>

text \<open>
  C5. Within each dataset the \<^verbatim>\<open>id\<close> fields of the records of all category buckets are
  pairwise distinct, and every id is a string of lowercase letters and dashes.
\<close>

theorem id_unique_and_pattern:
  "\<forall>lib \<in> set datasets.
     distinct (record_ids lib) \<and> (\<forall>i \<in> set (record_ids lib). id_ok i)"
  by (simp add: unf record_ids_def lowercase_with_dashes_def fields)

theorem id_unique_and_pattern_witness:
  "length (record_ids library_GRPG_LIBRARY) = 39 \<and>
   distinct (record_ids library_GRPG_LIBRARY) \<and>
   Some (JStr ''ability-touch-of-the-cosmos'') \<in> set (record_ids library_GRPG_LIBRARY) \<and>
   lowercase_with_dashes ''ability-touch-of-the-cosmos''"
proof -
  have n: "length (record_ids library_GRPG_LIBRARY) = 39"
    by (simp add: unf record_ids_def fields)
  have m: "Some (JStr ''ability-touch-of-the-cosmos'') \<in> set (record_ids library_GRPG_LIBRARY)"
    by (simp add: unf record_ids_def fields)
  from id_unique_and_pattern datasets_mem(1)
  have d: "distinct (record_ids library_GRPG_LIBRARY) \<and>
      (\<forall>i \<in> set (record_ids library_GRPG_LIBRARY). id_ok i)"
    by blast
  with m have "id_ok (Some (JStr ''ability-touch-of-the-cosmos''))"
    by blast
  with n m d show ?thesis
    by simp
qed

subsection \<open>Tag-name syntax\<close>

text \<open>
  C6. Every tag name of each of the three tag dictionaries contains a colon, and the
  \<^verbatim>\<open>category\<close> of its entry is the part of the name before the first colon.
\<close>

theorem tag_name_syntax:
  "\<forall>d \<in> set tag_dictionaries. \<forall>(name, e) \<in> set (entries d).
     CHR '':'' \<in> set name \<and>
     getp e ''category'' = Some (JStr (takeWhile (\<lambda>c. c \<noteq> CHR '':'') name))"
  by (simp add: tag_dictionaries_def library_TAG_DEFINITIONS_def v001_TAG_DEFINITIONS_def
      part000_TAG_DEFINITIONS_def)

theorem tag_name_syntax_witness:
  "map_of (entries v001_TAG_DEFINITIONS) ''source:supplement:wardens'' =
     Some (JObj [(''category'', JStr ''source''),
                 (''description'', JStr ''From a Wardens-focused supplement or expansion.'')]) \<and>
   takeWhile (\<lambda>c. c \<noteq> CHR '':'') ''source:supplement:wardens'' = ''source'' \<and>
   getp (JObj [(''category'', JStr ''source''),
               (''description'', JStr ''From a Wardens-focused supplement or expansion.'')])
     ''category'' = Some (JStr ''source'')"
proof -
  let ?e = "JObj [(''category'', JStr ''source''),
      (''description'', JStr ''From a Wardens-focused supplement or expansion.'')]"
  have d: "v001_TAG_DEFINITIONS \<in> set tag_dictionaries"
    by (simp add: tag_dictionaries_def)
  have l: "map_of (entries v001_TAG_DEFINITIONS) ''source:supplement:wardens'' = Some ?e"
    by (simp add: v001_TAG_DEFINITIONS_def)
  then have m: "(''source:supplement:wardens'', ?e) \<in> set (entries v001_TAG_DEFINITIONS)"
    by (rule map_of_SomeD)
  from tag_name_syntax d m
  have "getp ?e ''category'' =
      Some (JStr (takeWhile (\<lambda>c. c \<noteq> CHR '':'') ''source:supplement:wardens''))"
    by fastforce
  with l show ?thesis
    by simp
qed

subsection \<open>Choice-group shape\<close>

text \<open>
  C7. In the \<^verbatim>\<open>attributeMods\<close> of every race of each dataset, every choice group has at
  least two keys.
\<close>

theorem choice_group_shape:
  "\<forall>lib \<in> set datasets. \<forall>(k, r) \<in> set (bucket lib ''races''). \<forall>a \<in> set (attribute_keys r).
     \<forall>g. choice_group a = Some g \<longrightarrow> 2 \<le> length (group_keys r g)"
  by (simp add: unf attribute_keys_def group_keys_def choice_group_def fields)

theorem choice_group_shape_witness:
  "''anyOffenseOrDefense_A'' \<in> set (attribute_keys library_race_wildeman) \<and>
   choice_group ''anyOffenseOrDefense_A'' = Some (CHR ''A'') \<and>
   group_keys library_race_wildeman (CHR ''A'') = [''anyOffenseOrDefense_A'', ''coldResistance_A''] \<and>
   2 \<le> length (group_keys library_race_wildeman (CHR ''A''))"
proof -
  have r: "(''race-wildeman'', library_race_wildeman) \<in> set (bucket library_GRPG_LIBRARY ''races'')"
    by (simp add: fields)
  have a: "''anyOffenseOrDefense_A'' \<in> set (attribute_keys library_race_wildeman)"
    by (simp add: attribute_keys_def fields)
  have g: "choice_group ''anyOffenseOrDefense_A'' = Some (CHR ''A'')"
    by (simp add: choice_group_def)
  have ks: "group_keys library_race_wildeman (CHR ''A'') =
      [''anyOffenseOrDefense_A'', ''coldResistance_A'']"
    by (simp add: group_keys_def attribute_keys_def choice_group_def fields)
  from choice_group_shape datasets_mem(1) r a g
  have "2 \<le> length (group_keys library_race_wildeman (CHR ''A''))"
    by fastforce
  with a g ks show ?thesis
    by blast
qed

subsection \<open>Key-id agreement\<close>

text \<open>
  C9. In every category bucket of the three datasets, every record is stored under the key
  that is its own \<^verbatim>\<open>id\<close>.
\<close>

theorem key_id_agreement:
  "\<forall>lib \<in> set datasets. \<forall>b \<in> set categories. \<forall>(k, r) \<in> set (bucket lib b).
     getp r ''id'' = Some (JStr k)"
  by (simp add: unf fields)

theorem key_id_agreement_witness:
  "(''ability-internal-spark'', library_ability_internal_spark)
     \<in> set (bucket library_GRPG_LIBRARY ''abilities'') \<and>
   getp library_ability_internal_spark ''id'' = Some (JStr ''ability-internal-spark'')"
proof -
  have r: "(''ability-internal-spark'', library_ability_internal_spark)
      \<in> set (bucket library_GRPG_LIBRARY ''abilities'')"
    by (simp add: fields)
  from key_id_agreement datasets_mem(1) categories_mem(4) r
  have "getp library_ability_internal_spark ''id'' = Some (JStr ''ability-internal-spark'')"
    by fastforce
  with r show ?thesis
    by blast
qed

subsection \<open>Variant equivalence\<close>

lemma v001_part000_records:
  "v001_race_tettari = part000_race_tettari"
  "v001_class_warden = part000_class_warden"
  "v001_trait_tettari_survivor = part000_trait_tettari_survivor"
  "v001_ability_mark_prey = part000_ability_mark_prey"
  unfolding v001_race_tettari_def part000_race_tettari_def
    v001_class_warden_def part000_class_warden_def
    v001_trait_tettari_survivor_def part000_trait_tettari_survivor_def
    v001_ability_mark_prey_def part000_ability_mark_prey_def
  by (rule refl)+

text \<open>
  C10. The library object and the tag dictionary of \<^verbatim>\<open>src/GRPGLibrary0.0.1.js\<close> equal
  those of \<^verbatim>\<open>src/unnamed/part_000\<close>; the buckets hold one race, one class, one trait and
  one ability, and origins, circles, items and professions are empty.
\<close>

theorem variant_equivalence:
  "v001_TAG_DEFINITIONS = part000_TAG_DEFINITIONS \<and>
   v001_GRPG_LIBRARY = part000_GRPG_LIBRARY \<and>
   getp v001_GRPG_LIBRARY ''meta'' = getp part000_GRPG_LIBRARY ''meta'' \<and>
   map (\<lambda>b. map fst (bucket v001_GRPG_LIBRARY b)) categories =
     [[''race-tettari''], [''class-warden''], [], [], [''trait-tettari-survivor''],
      [''ability-mark-prey''], [], []] \<and>
   map (bucket v001_GRPG_LIBRARY) categories = map (bucket part000_GRPG_LIBRARY) categories"
proof -
  have t: "v001_TAG_DEFINITIONS = part000_TAG_DEFINITIONS"
    unfolding v001_TAG_DEFINITIONS_def part000_TAG_DEFINITIONS_def by (rule refl)
  have l: "v001_GRPG_LIBRARY = part000_GRPG_LIBRARY"
    unfolding v001_GRPG_LIBRARY_def part000_GRPG_LIBRARY_def t v001_part000_records
    by (rule refl)
  have k: "map (\<lambda>b. map fst (bucket v001_GRPG_LIBRARY b)) categories =
     [[''race-tettari''], [''class-warden''], [], [], [''trait-tettari-survivor''],
      [''ability-mark-prey''], [], []]"
    by (simp add: unf v001_buckets)
  from t l k show ?thesis
    by simp
qed

subsection \<open>Insertion into the Content Store\<close>

text \<open>
  C8, as stated: \<^verbatim>\<open>add(category, record)\<close> fails with \<^verbatim>\<open>DuplicateId\<close> exactly when
  the id of the record is already present in that category. A store that enforces
  cross-category uniqueness also fails when the id is present in another category only.
\<close>

theorem add_duplicate_counterexample:
  "fst (add ''classes'' v001_race_tettari
     \<lparr>cross_category = True, contents = (\<lambda>c. [])(''races'' := [v001_race_tettari])\<rparr>)
     = Inl DuplicateId \<and>
   stored_ids \<lparr>cross_category = True, contents = (\<lambda>c. [])(''races'' := [v001_race_tettari])\<rparr>
     ''classes'' = []"
  by (simp add: add_def collides_def stored_ids_def unf fields)

text \<open>
  C8, amended: \<^verbatim>\<open>add(category, record)\<close> fails with \<^verbatim>\<open>DuplicateId\<close> exactly when
  the id of the record is already present in that category or, in a store that enforces
  cross-category uniqueness, in any category. A failed call leaves the store unchanged, so
  every later call behaves as if the failed one had not been made; a call that does not fail
  stores the record last in its category.
\<close>

theorem add_duplicate_id:
  "(fst (add c r s) = Inl DuplicateId \<longleftrightarrow>
      getp r ''id'' \<in> set (stored_ids s c) \<or>
      cross_category s \<and> (\<exists>c' \<in> set categories. getp r ''id'' \<in> set (stored_ids s c'))) \<and>
   (fst (add c r s) = Inl DuplicateId \<longrightarrow>
      snd (add c r s) = s \<and> add c' r' (snd (add c r s)) = add c' r' s) \<and>
   (fst (add c r s) \<noteq> Inl DuplicateId \<longrightarrow>
      fst (add c r s) = Inr () \<and> contents (snd (add c r s)) c = contents s c @ [r] \<and>
      (\<forall>d. d \<noteq> c \<longrightarrow> contents (snd (add c r s)) d = contents s d))"
  by (simp add: add_def collides_def list_ex_iff)

theorem add_duplicate_id_witness:
  "fst (add ''races'' v001_race_tettari
     \<lparr>cross_category = False, contents = (\<lambda>c. [])(''races'' := [v001_race_tettari])\<rparr>)
     = Inl DuplicateId \<and>
   snd (add ''races'' v001_race_tettari
     \<lparr>cross_category = False, contents = (\<lambda>c. [])(''races'' := [v001_race_tettari])\<rparr>)
     = \<lparr>cross_category = False, contents = (\<lambda>c. [])(''races'' := [v001_race_tettari])\<rparr> \<and>
   fst (add ''classes'' v001_class_warden
     \<lparr>cross_category = False, contents = (\<lambda>c. [])(''races'' := [v001_race_tettari])\<rparr>)
     = Inr ()"
proof -
  let ?s = "\<lparr>cross_category = False, contents = (\<lambda>c. [])(''races'' := [v001_race_tettari])\<rparr>"
  have i: "getp v001_race_tettari ''id'' \<in> set (stored_ids ?s ''races'')"
    by (simp add: stored_ids_def)
  have j: "getp v001_class_warden ''id'' \<notin> set (stored_ids ?s ''classes'')"
    by (simp add: stored_ids_def)
  from add_duplicate_id [of "''races''" v001_race_tettari ?s] i
  have 1: "fst (add ''races'' v001_race_tettari ?s) = Inl DuplicateId"
    by blast
  with add_duplicate_id [of "''races''" v001_race_tettari ?s]
  have 2: "snd (add ''races'' v001_race_tettari ?s) = ?s"
    by blast
  from add_duplicate_id [of "''classes''" v001_class_warden ?s] j
  have 3: "fst (add ''classes'' v001_class_warden ?s) = Inr ()"
    by simp
  from 1 2 3 show ?thesis
    by blast
qed

end
